theory Spec2Isabelle
  imports Complex_Main "HOL-Library.Sublist" "HOL-Library.AList" "HOL-Library.Code_Target_Nat"
begin

section \<open>Strings of the host language\<close>

text \<open>
  A string is the list of its UTF-16 code units, given as natural numbers, and \<open>length\<close>
  counts code units; \<open>lit\<close> gives the code units of a literal written in ASCII.
\<close>

type_synonym ustring = "nat list"

definition lit :: "string \<Rightarrow> ustring" where
  "lit s = map of_char s"

text \<open>
  \<open>toLowerCase\<close> and \<open>toUpperCase\<close> follow the case mapping of Unicode on the code units
  below \<open>0x100\<close> (Basic Latin and Latin-1 Supplement) and on U+0130, the capital I with a
  dot above, whose lower case is the two code units \<open>0x69 0x307\<close>; every other code unit
  is left as it is, where the host maps further letters. The general statements below are
  proved without unfolding these two definitions; only the examples evaluate them.
\<close>

definition lowerUnit :: "nat \<Rightarrow> ustring" where
  "lowerUnit u =
     (if 0x41 \<le> u \<and> u \<le> 0x5A then [u + 0x20]
      else if 0xC0 \<le> u \<and> u \<le> 0xDE \<and> u \<noteq> 0xD7 then [u + 0x20]
      else if u = 0x130 then [0x69, 0x307]
      else [u])"

definition upperUnit :: "nat \<Rightarrow> ustring" where
  "upperUnit u =
     (if 0x61 \<le> u \<and> u \<le> 0x7A then [u - 0x20]
      else if 0xE0 \<le> u \<and> u \<le> 0xFE \<and> u \<noteq> 0xF7 then [u - 0x20]
      else if u = 0xDF then [0x53, 0x53]
      else if u = 0xB5 then [0x39C]
      else if u = 0xFF then [0x178]
      else [u])"

definition toLowerCase :: "ustring \<Rightarrow> ustring" where
  "toLowerCase s = concat (map lowerUnit s)"

definition toUpperCase :: "ustring \<Rightarrow> ustring" where
  "toUpperCase s = concat (map upperUnit s)"

text \<open>
  The white space and line terminators of the language, which \<open>trim\<close> removes at both
  ends and \<open>\s\<close> matches.
\<close>

definition isSpace :: "nat \<Rightarrow> bool" where
  "isSpace u =
     (u \<in> set [0x09, 0x0A, 0x0B, 0x0C, 0x0D, 0x20, 0xA0, 0x1680, 0x2028, 0x2029, 0x202F,
                0x205F, 0x3000, 0xFEFF]
      \<or> (0x2000 \<le> u \<and> u \<le> 0x200A))"

definition trim :: "ustring \<Rightarrow> ustring" where
  "trim s = rev (dropWhile isSpace (rev (dropWhile isSpace s)))"

text \<open>\<open>text.includes(query)\<close>: some suffix of \<open>text\<close> starts with \<open>query\<close>.\<close>

fun includes_str :: "ustring \<Rightarrow> ustring \<Rightarrow> bool" where
  "includes_str [] q = (q = [])"
| "includes_str (c # cs) q = (prefix q (c # cs) \<or> includes_str cs q)"

section \<open>Values of the host language\<close>

text \<open>
  The records handled by the program are parsed JSON: untyped values whose fields may be
  absent or of any type. Numbers are restricted to integers (years, cover ids, counts).
  An object is the list of its own properties in insertion order.
\<close>

datatype jsval =
    Undefined
  | Null
  | JBool bool
  | JNum int
  | JStr ustring
  | JArr "jsval list"
  | JObj "(string \<times> jsval) list"

datatype error = TypeError | SyntaxError | AbortError | Error string

text \<open>The values that count as false in a condition, in \<open>||\<close> and in \<open>&&\<close>.\<close>

fun truthy :: "jsval \<Rightarrow> bool" where
  "truthy Undefined = False"
| "truthy Null = False"
| "truthy (JBool b) = b"
| "truthy (JNum n) = (n \<noteq> 0)"
| "truthy (JStr s) = (s \<noteq> [])"
| "truthy (JArr xs) = True"
| "truthy (JObj ps) = True"

definition js_or :: "jsval \<Rightarrow> jsval \<Rightarrow> jsval" where
  "js_or a b = (if truthy a then a else b)"

definition js_and :: "jsval \<Rightarrow> jsval \<Rightarrow> jsval" where
  "js_and a b = (if truthy a then b else a)"

fun nullish :: "jsval \<Rightarrow> bool" where
  "nullish Undefined = True"
| "nullish Null = True"
| "nullish v = False"

text \<open>
  \<open>v?.k\<close> for a data property \<open>k\<close>: \<open>undefined\<close> on \<open>undefined\<close> and \<open>null\<close>, the own
  property of an object, and \<open>undefined\<close> on every other value (none of the names the
  program reads this way is a built-in property of a string, number, boolean or array).
\<close>

fun oprop :: "jsval \<Rightarrow> string \<Rightarrow> jsval" where
  "oprop (JObj ps) k = (case map_of ps k of Some v \<Rightarrow> v | None \<Rightarrow> Undefined)"
| "oprop v k = Undefined"

text \<open>\<open>v.k\<close>: as \<open>v?.k\<close>, but reading a property of \<open>undefined\<close> or \<open>null\<close> throws.\<close>

definition getp :: "jsval \<Rightarrow> string \<Rightarrow> error + jsval" where
  "getp v k = (if nullish v then Inl TypeError else Inr (oprop v k))"

text \<open>\<open>v[0]\<close> on a value that is not \<open>undefined\<close> or \<open>null\<close>.\<close>

fun index0 :: "jsval \<Rightarrow> jsval" where
  "index0 (JArr xs) = (case xs of [] \<Rightarrow> Undefined | x # _ \<Rightarrow> x)"
| "index0 (JStr s) = (case s of [] \<Rightarrow> Undefined | c # _ \<Rightarrow> JStr [c])"
| "index0 (JObj ps) = oprop (JObj ps) ''0''"
| "index0 v = Undefined"

text \<open>\<open>v.length\<close> on a value that is not \<open>undefined\<close> or \<open>null\<close>.\<close>

fun js_length :: "jsval \<Rightarrow> jsval" where
  "js_length (JArr xs) = JNum (int (length xs))"
| "js_length (JStr s) = JNum (int (length s))"
| "js_length (JObj ps) = oprop (JObj ps) ''length''"
| "js_length v = Undefined"

text \<open>
  \<open>v.toLowerCase()\<close> and \<open>v.trim()\<close>: only a string has these methods; on any other
  value the call throws (on \<open>undefined\<close> and \<open>null\<close> the property read throws, elsewhere
  the property is not a function).
\<close>

fun str_toLowerCase :: "jsval \<Rightarrow> error + ustring" where
  "str_toLowerCase (JStr s) = Inr (toLowerCase s)"
| "str_toLowerCase v = Inl TypeError"

fun str_trim :: "jsval \<Rightarrow> error + ustring" where
  "str_trim (JStr s) = Inr (trim s)"
| "str_trim v = Inl TypeError"

text \<open>Sequencing of computations that may throw.\<close>

definition bindE :: "error + 'a \<Rightarrow> ('a \<Rightarrow> error + 'b) \<Rightarrow> error + 'b" where
  "bindE m f = (case m of Inl e \<Rightarrow> Inl e | Inr x \<Rightarrow> f x)"

text \<open>
  The outcome of a call of \<open>fetch\<close>: the promise rejects, or it resolves to a response
  with its \<open>ok\<close> flag and the outcome of \<open>response.json()\<close>.
\<close>

datatype fetch_result = Rejected error | Response bool "error + jsval"

section \<open>The merge of works and search hits (apiService.js, enhanceBookData)\<close>

text \<open>
  The first loop: the lookup from normalized title to search hit. A later hit with the
  same normalized title replaces an earlier one, as \<open>Map.set\<close> does.
\<close>

fun buildSearchMap :: "jsval list \<Rightarrow> (ustring \<Rightarrow> jsval option) \<Rightarrow> error + (ustring \<Rightarrow> jsval option)" where
  "buildSearchMap [] searchBooksMap = Inr searchBooksMap"
| "buildSearchMap (book # rest) searchBooksMap =
     bindE (getp book ''title'') (\<lambda>title.
       if truthy title
       then bindE (str_toLowerCase title) (\<lambda>lowered.
              buildSearchMap rest (searchBooksMap(trim lowered \<mapsto> book)))
       else buildSearchMap rest searchBooksMap)"

text \<open>
  The per-work detail request. Its outcome is an input of the model, given for each work;
  a work is requested at most once, since a processed work has a title no earlier processed
  work has. A rejected or aborted request, a response that is not \<open>ok\<close> and a body that
  does not parse all leave \<open>detailedWork\<close> at \<open>null\<close>.
\<close>

definition detailedWork :: "(jsval \<Rightarrow> fetch_result) \<Rightarrow> jsval \<Rightarrow> jsval" where
  "detailedWork net work =
     (if truthy (oprop work ''key'')
      then (case net work of
              Rejected e \<Rightarrow> Null
            | Response ok body \<Rightarrow>
                (if ok then (case body of Inl e \<Rightarrow> Null | Inr v \<Rightarrow> v) else Null))
      else Null)"

text \<open>The object literal \<open>enhancedBook\<close>; \<open>work\<close> is not \<open>undefined\<close> or \<open>null\<close> here.\<close>

definition enhancedBook :: "jsval \<Rightarrow> jsval \<Rightarrow> jsval \<Rightarrow> jsval" where
  "enhancedBook work searchMatch detailed = JObj
     [(''title'', oprop work ''title''),
      (''key'', oprop work ''key''),
      (''covers'', js_or (oprop work ''covers'') (JArr [])),
      (''cover_i'', js_or (oprop searchMatch ''cover_i'')
                      (js_and (oprop work ''covers'') (index0 (oprop work ''covers'')))),
      (''first_publish_year'', js_or (oprop searchMatch ''first_publish_year'')
                                 (oprop work ''first_publish_date'')),
      (''first_publish_date'', js_or (oprop work ''first_publish_date'')
                                 (oprop searchMatch ''first_publish_date'')),
      (''language'', js_or (oprop searchMatch ''language'') (JArr [])),
      (''publisher'', js_or (oprop searchMatch ''publisher'') (JArr [])),
      (''isbn'', js_or (oprop searchMatch ''isbn'') (JArr [])),
      (''subject'', js_or (js_or (oprop searchMatch ''subject'') (oprop detailed ''subjects''))
                      (JArr [])),
      (''edition_count'', js_or (oprop searchMatch ''edition_count'') (JNum 1)),
      (''author_key'', js_or (oprop searchMatch ''author_key'') (JArr [JStr (lit ''OL23919A'')])),
      (''author_name'', js_or (oprop searchMatch ''author_name'') (JArr [JStr (lit ''J.K. Rowling'')])),
      (''description'', js_or (js_or (oprop (oprop detailed ''description'') ''value'')
                                 (oprop detailed ''description''))
                          (oprop work ''description'')),
      (''subtitle'', js_or (oprop detailed ''subtitle'') (oprop work ''subtitle'')),
      (''dewey_decimal_class'', js_or (oprop detailed ''dewey_decimal_class'') (JArr [])),
      (''lc_classifications'', js_or (oprop detailed ''lc_classifications'') (JArr []))]"

text \<open>The second loop, over the works, with the two variables it updates.\<close>

fun processWorks :: "(jsval \<Rightarrow> fetch_result) \<Rightarrow> (ustring \<Rightarrow> jsval option) \<Rightarrow> jsval list \<Rightarrow>
    jsval list \<times> ustring set \<Rightarrow> error + (jsval list \<times> ustring set)" where
  "processWorks net searchBooksMap [] st = Inr st"
| "processWorks net searchBooksMap (work # rest) (enhancedBooks, processedTitles) =
     bindE (getp work ''title'') (\<lambda>title.
       if \<not> truthy title
       then processWorks net searchBooksMap rest (enhancedBooks, processedTitles)
       else bindE (str_toLowerCase title) (\<lambda>lowered.
         if lowered \<in> processedTitles
         then processWorks net searchBooksMap rest (enhancedBooks, processedTitles)
         else let searchMatch = (case searchBooksMap lowered of Some b \<Rightarrow> b | None \<Rightarrow> Undefined);
                  detailed = detailedWork net work
              in processWorks net searchBooksMap rest
                   (enhancedBooks @ [enhancedBook work searchMatch detailed],
                    insert lowered processedTitles)))"

text \<open>
  The record pushed for a search hit that no work matched: the spread of the hit, then the
  four properties set after it. The hit has a truthy \<open>title\<close>, so it is an object.
\<close>

fun spread :: "jsval \<Rightarrow> (string \<times> jsval) list" where
  "spread (JObj ps) = ps"
| "spread v = []"

definition searchOnlyBook :: "jsval \<Rightarrow> jsval" where
  "searchOnlyBook searchBook = JObj
     (AList.update ''author_name''
        (js_or (oprop searchBook ''author_name'') (JArr [JStr (lit ''J.K. Rowling'')]))
     (AList.update ''author_key''
        (js_or (oprop searchBook ''author_key'') (JArr [JStr (lit ''OL23919A'')]))
     (AList.update ''covers''
        (if truthy (oprop searchBook ''cover_i'') then JArr [oprop searchBook ''cover_i''] else JArr [])
     (AList.update ''key'' (js_or (oprop searchBook ''key'') Null)
        (spread searchBook)))))"

text \<open>The third loop, over the search hits.\<close>

fun addSearchResults :: "jsval list \<Rightarrow> jsval list \<times> ustring set \<Rightarrow> error + (jsval list \<times> ustring set)" where
  "addSearchResults [] st = Inr st"
| "addSearchResults (searchBook # rest) (enhancedBooks, processedTitles) =
     bindE (getp searchBook ''title'') (\<lambda>title.
       if \<not> truthy title
       then addSearchResults rest (enhancedBooks, processedTitles)
       else bindE (str_toLowerCase title) (\<lambda>lowered.
         if lowered \<in> processedTitles
         then addSearchResults rest (enhancedBooks, processedTitles)
         else addSearchResults rest
                (enhancedBooks @ [searchOnlyBook searchBook], insert lowered processedTitles)))"

text \<open>
  \<open>enhanceBookData(works, searchBooks)\<close>. An argument that is not an array is skipped by
  the two \<open>Array.isArray\<close> tests.
\<close>

definition enhanceBookData :: "(jsval \<Rightarrow> fetch_result) \<Rightarrow> jsval \<Rightarrow> jsval \<Rightarrow> error + jsval list" where
  "enhanceBookData net works searchBooks =
     bindE (case searchBooks of JArr hits \<Rightarrow> buildSearchMap hits Map.empty | _ \<Rightarrow> Inr Map.empty)
       (\<lambda>searchBooksMap.
     bindE (processWorks net searchBooksMap (case works of JArr ws \<Rightarrow> ws | _ \<Rightarrow> []) ([], {}))
       (\<lambda>st.
     bindE (case searchBooks of JArr hits \<Rightarrow> addSearchResults hits st | _ \<Rightarrow> Inr st)
       (\<lambda>st'. Inr (fst st'))))"

section \<open>The catalog request and its fallbacks (apiService.js, fetchDetailedJKRowlingBooks)\<close>

text \<open>
  \<open>cachedFetch\<close> either rejects or resolves to an object that carries the parsed body
  (its \<open>json()\<close> returns that body and cannot fail) together with whatever \<open>ok\<close> property
  the copied response has. Which of the two happens at each of the three calls is decided
  by the cache, the clock and the network; the three outcomes are inputs of the model. The
  \<open>limit\<close> argument only enters the requested addresses.
\<close>

record cachedResponse =
  resp_ok :: jsval
  resp_json :: jsval

record catalog =
  result_books :: jsval
  result_total :: jsval

text \<open>The body of the inner \<open>try\<close>: \<open>enhanceBookData(worksData.entries, searchData.docs)\<close>.\<close>

definition enhanceStep :: "(jsval \<Rightarrow> fetch_result) \<Rightarrow> jsval \<Rightarrow> jsval \<Rightarrow> error + jsval list" where
  "enhanceStep net worksData searchData =
     bindE (getp worksData ''entries'') (\<lambda>entries.
     bindE (getp searchData ''docs'') (\<lambda>docs.
       enhanceBookData net entries docs))"

text \<open>The body of the outer \<open>try\<close>: both requests, the test of \<open>ok\<close>, and the merge with its own \<open>catch\<close>.\<close>

definition combinedFetch :: "(jsval \<Rightarrow> fetch_result) \<Rightarrow> error + cachedResponse \<Rightarrow> error + cachedResponse \<Rightarrow>
    error + catalog" where
  "combinedFetch net worksR searchR =
     bindE worksR (\<lambda>worksResponse.
     bindE searchR (\<lambda>searchResponse.
       if \<not> truthy (resp_ok worksResponse) \<or> \<not> truthy (resp_ok searchResponse)
       then Inl (Error ''API request failed'')
       else let worksData = resp_json worksResponse; searchData = resp_json searchResponse in
         bindE (case enhanceStep net worksData searchData of
                  Inr enhanced \<Rightarrow> Inr (JArr enhanced)
                | Inl enhanceError \<Rightarrow>
                    bindE (getp searchData ''docs'') (\<lambda>docs. Inr (js_or docs (JArr []))))
           (\<lambda>enhancedBooks.
              Inr \<lparr>result_books = enhancedBooks, result_total = js_length enhancedBooks\<rparr>)))"

text \<open>The outer \<open>catch\<close>: the search request alone; a failure in it is thrown again.\<close>

definition searchFallback :: "error + cachedResponse \<Rightarrow> error + catalog" where
  "searchFallback fallbackR =
     bindE fallbackR (\<lambda>searchResponse.
       let searchData = resp_json searchResponse in
       bindE (getp searchData ''docs'') (\<lambda>docs.
         Inr \<lparr>result_books = js_or docs (JArr []),
              result_total = js_or (if nullish docs then Undefined else js_length docs) (JNum 0)\<rparr>))"

definition fetchDetailedJKRowlingBooks :: "(jsval \<Rightarrow> fetch_result) \<Rightarrow> error + cachedResponse \<Rightarrow>
    error + cachedResponse \<Rightarrow> error + cachedResponse \<Rightarrow> error + catalog" where
  "fetchDetailedJKRowlingBooks net worksR searchR fallbackR =
     (case combinedFetch net worksR searchR of
        Inr result \<Rightarrow> Inr result
      | Inl error \<Rightarrow> searchFallback fallbackR)"

section \<open>Descriptions (apiService.js, generateBookDescription)\<close>

subsection \<open>Conversion to strings, \<open>join\<close> and \<open>split\<close>\<close>

function showNat :: "nat \<Rightarrow> ustring" where
  "showNat n = (if n < 10 then [0x30 + n]
                else showNat (n div 10) @ [0x30 + n mod 10])"
  by pat_completeness auto
termination
  by (relation "measure id") auto

definition showInt :: "int \<Rightarrow> ustring" where
  "showInt i = (if i < 0 then 0x2D # showNat (nat (- i)) else showNat (nat i))"

fun join_with :: "ustring \<Rightarrow> ustring list \<Rightarrow> ustring" where
  "join_with sep [] = []"
| "join_with sep [x] = x"
| "join_with sep (x # y # rest) = x @ sep @ join_with sep (y # rest)"

text \<open>
  The conversion of a value to a string, as \<open>join\<close> performs it on the elements of an
  array. A parsed object that has an own property \<open>toString\<close> cannot be converted: the
  property is not a function, the inherited \<open>valueOf\<close> returns the object itself, and
  the conversion throws. An array is converted by joining its own elements, so it cannot
  be converted when one of them cannot.
\<close>

fun unconvertible :: "jsval \<Rightarrow> bool" where
  "unconvertible (JObj ps) = (map_of ps ''toString'' \<noteq> None)"
| "unconvertible (JArr xs) = list_ex unconvertible xs"
| "unconvertible v = False"

text \<open>
  The string of a value that can be converted; inside \<open>join\<close> an element that is
  \<open>undefined\<close> or \<open>null\<close> contributes the empty string.
\<close>

fun toStr :: "jsval \<Rightarrow> ustring" where
  "toStr Undefined = lit ''undefined''"
| "toStr Null = lit ''null''"
| "toStr (JBool b) = (if b then lit ''true'' else lit ''false'')"
| "toStr (JNum n) = showInt n"
| "toStr (JStr s) = s"
| "toStr (JArr xs) = join_with (lit '','') (map (\<lambda>x. if nullish x then [] else toStr x) xs)"
| "toStr (JObj ps) = lit ''[object Object]''"

text \<open>
  \<open>v.join(sep)\<close> on a value that is not \<open>undefined\<close> or \<open>null\<close>: only an array has the
  method, and the call throws when an element cannot be converted.
\<close>

fun arr_join :: "jsval \<Rightarrow> ustring \<Rightarrow> error + ustring" where
  "arr_join (JArr xs) sep =
     (if list_ex unconvertible xs then Inl TypeError
      else Inr (join_with sep (map (\<lambda>x. if nullish x then [] else toStr x) xs)))"
| "arr_join v sep = Inl TypeError"

text \<open>
  \<open>s.split(/[.!?]+/)\<close>: the pieces between the maximal runs of sentence marks. The flag
  tells whether the previous character was a mark.
\<close>

definition isSentenceMark :: "nat \<Rightarrow> bool" where
  "isSentenceMark c = (c \<in> set (lit ''.!?''))"

fun splitMarks :: "bool \<Rightarrow> ustring \<Rightarrow> ustring \<Rightarrow> ustring list" where
  "splitMarks inRun piece [] = [piece]"
| "splitMarks inRun piece (c # cs) =
     (if isSentenceMark c
      then (if inRun then splitMarks True piece cs else piece # splitMarks True [] cs)
      else splitMarks False (piece @ [c]) cs)"

definition splitSentences :: "ustring \<Rightarrow> ustring list" where
  "splitSentences s = splitMarks False [] s"

subsection \<open>The descriptive-text dataset\<close>

text \<open>The callback of \<open>data.rows.find\<close>.\<close>

definition opt_toLowerCase :: "jsval \<Rightarrow> error + ustring" where
  "opt_toLowerCase v = (if nullish v then Inr [] else str_toLowerCase v)"

definition rowMatches :: "jsval \<Rightarrow> jsval \<Rightarrow> error + bool" where
  "rowMatches book row =
     bindE (getp row ''row'') (\<lambda>r.
     bindE (getp r ''title'') (\<lambda>t.
     bindE (opt_toLowerCase t) (\<lambda>dataTitle.
     bindE (getp r ''authors'') (\<lambda>a.
     bindE (opt_toLowerCase a) (\<lambda>dataAuthor.
     bindE (getp book ''title'') (\<lambda>bt.
     bindE (str_toLowerCase bt) (\<lambda>bookTitle.
       Inr ((includes_str dataTitle (take 10 bookTitle) \<or> includes_str bookTitle (take 10 dataTitle))
            \<and> includes_str dataAuthor (lit ''rowling'')))))))))"

fun findRow :: "jsval \<Rightarrow> jsval list \<Rightarrow> error + jsval" where
  "findRow book [] = Inr Undefined"
| "findRow book (row # rest) =
     bindE (rowMatches book row) (\<lambda>found. if found then Inr row else findRow book rest)"

text \<open>
  The body of the \<open>try\<close> block of \<open>fetchFromGoodreadsDataset\<close>; the outcome of the
  request to the dataset is an input of the model.
\<close>

definition goodreadsLookup :: "fetch_result \<Rightarrow> jsval \<Rightarrow> error + jsval" where
  "goodreadsLookup dataset book =
     (case dataset of
        Rejected e \<Rightarrow> Inl e
      | Response ok body \<Rightarrow>
          if \<not> ok then Inl (Error ''Dataset API error'')
          else
            bindE body (\<lambda>data.
            bindE (getp data ''rows'') (\<lambda>rows.
              if truthy rows then
                bindE (case rows of JArr rs \<Rightarrow> findRow book rs | _ \<Rightarrow> Inl TypeError)
                  (\<lambda>matchingBook.
                bindE (if truthy matchingBook
                       then bindE (getp matchingBook ''row'') (\<lambda>r. getp r ''description'')
                       else Inr matchingBook) (\<lambda>found.
                  if truthy found then
                    bindE (str_trim found) (\<lambda>trimmed.
                      let sentences = filter (\<lambda>s. length (trim s) > 10) (splitSentences trimmed);
                          description = (if length sentences > 2
                                         then join_with (lit ''. '') (take 2 sentences) @ lit ''.''
                                         else trimmed)
                      in Inr (if length description > 50 then JStr description else Null))
                  else Inr Null))
              else Inr Null)))"

text \<open>The \<open>catch\<close> of \<open>fetchFromGoodreadsDataset\<close> turns every failure into \<open>null\<close>.\<close>

definition fetchFromGoodreadsDataset :: "fetch_result \<Rightarrow> jsval \<Rightarrow> error + jsval" where
  "fetchFromGoodreadsDataset dataset book =
     (case goodreadsLookup dataset book of Inl error \<Rightarrow> Inr Null | Inr v \<Rightarrow> Inr v)"

subsection \<open>The rule-based fallback\<close>

definition getFallbackDescription :: "jsval \<Rightarrow> error + ustring" where
  "getFallbackDescription book =
     bindE (getp book ''title'') (\<lambda>t.
     bindE (str_toLowerCase t) (\<lambda>title.
     bindE (arr_join (js_or (oprop book ''subject'') (JArr [])) (lit '' '')) (\<lambda>joined.
       let subjectStr = toLowerCase joined in
       Inr (
         if includes_str title (lit ''harry potter'') then
           (if includes_str title (lit ''philosopher'') \<or> includes_str title (lit ''sorcerer'') then
              lit (''The magical journey begins as young Harry Potter discovers his true identity and enters the enchanting world of Hogwarts School of Witchcraft and Wizardry.'')
            else if includes_str title (lit ''chamber'') then
              lit (''Harry returns to Hogwarts for his second year, where ancient secrets and a mysterious monster threaten the school.'')
            else if includes_str title (lit ''prisoner'') then
              lit (''Harry'' @ [CHR 0x27] @ ''s third year brings new revelations about his past and the escape of a dangerous prisoner from Azkaban.'')
            else if includes_str title (lit ''goblet'') then
              lit (''Harry faces his most dangerous challenges yet as he competes in the legendary Triwizard Tournament.'')
            else if includes_str title (lit ''phoenix'') then
              lit (''As Voldemort returns to power, Harry must unite his friends and form a secret organization to fight against the darkness.'')
            else if includes_str title (lit ''prince'') then
              lit (''Harry delves into Voldemort'' @ [CHR 0x27] @ ''s dark past while preparing for the ultimate confrontation between good and evil.'')
            else if includes_str title (lit ''hallows'') then
              lit (''The epic conclusion to Harry'' @ [CHR 0x27] @ ''s journey as he faces his destiny and the final battle against Voldemort.'')
            else
              lit (''Join Harry Potter on an unforgettable magical adventure filled with friendship, courage, and the triumph of good over evil.''))
         else if includes_str title (lit ''strike'') \<or> includes_str title (lit ''cuckoo'') \<or> includes_str title (lit ''silkworm'') \<or>
                 includes_str title (lit ''evil'') \<or> includes_str title (lit ''white'') \<or> includes_str title (lit ''blood'') \<or>
                 includes_str title (lit ''heart'') \<or> includes_str title (lit ''grave'') then
           lit (''Follow private detective Cormoran Strike as he unravels complex mysteries in this gripping crime series that showcases Rowling'' @ [CHR 0x27] @ ''s masterful storytelling beyond the wizarding world.'')
         else if includes_str title (lit ''casual vacancy'') then
           lit (''A darkly comic and deeply moving novel that explores the hidden tensions and conflicts within a seemingly idyllic English town.'')
         else if includes_str title (lit ''fantastic beasts'') then
           lit (''Explore the magical world of fantastic creatures in this enchanting companion to the Harry Potter universe.'')
         else if includes_str subjectStr (lit ''fantasy'') \<or> includes_str subjectStr (lit ''magic'') then
           lit (''A spellbinding fantasy tale that transports readers to a world of magic, adventure, and unforgettable characters created by the masterful J.K. Rowling.'')
         else if includes_str subjectStr (lit ''mystery'') \<or> includes_str subjectStr (lit ''crime'') then
           lit (''A compelling mystery that weaves together intricate plotlines and complex characters in J.K. Rowling'' @ [CHR 0x27] @ ''s signature storytelling style.'')
         else if includes_str subjectStr (lit ''young adult'') \<or> includes_str subjectStr (lit ''children'') then
           lit (''An engaging tale that captures the imagination of readers young and old with its rich storytelling and memorable characters.'')
         else
           lit (''A captivating work by J.K. Rowling that demonstrates her exceptional ability to craft compelling stories with depth, emotion, and unforgettable characters.'')))))"

text \<open>
  \<open>generateBookDescription\<close>: a failure of the lookup is caught and, like an empty
  result, leads to the fallback, whose own failure is not caught.
\<close>

definition generateBookDescription :: "fetch_result \<Rightarrow> jsval \<Rightarrow> error + jsval" where
  "generateBookDescription dataset book =
     (case fetchFromGoodreadsDataset dataset book of
        Inr goodreadsDescription \<Rightarrow>
          if truthy goodreadsDescription then Inr goodreadsDescription
          else bindE (getFallbackDescription book) (\<lambda>s. Inr (JStr s))
      | Inl error \<Rightarrow> bindE (getFallbackDescription book) (\<lambda>s. Inr (JStr s)))"

section \<open>Ingest of the raw book list (navigation.js, BooksPageManager.filterBooks)\<close>

definition excludedTerms :: "ustring list" where
  "excludedTerms = map lit
     [''large print'', ''audio book'', ''audiobook'', ''[microform]'', ''braille'',
      ''box set'', ''boxset'', ''collection'', ''complete series'', ''complete set'',
      ''books 1-'', ''books 1 '', ''volumes 1-'', ''hardcover box set'',
      ''paperback box set'', ''gift set'', ''omnibus'', ''anthology'', ''collector'',
      ''special edition set'', ''deluxe edition set'', ''library set'',
      ''school set'', ''classroom set'']"

definition isExcludedTitle :: "ustring \<Rightarrow> bool" where
  "isExcludedTitle title =
     (list_ex (\<lambda>term. includes_str title term) excludedTerms \<or> length title \<le> 2)"

text \<open>The first \<open>filter\<close>: \<open>book.title && book.first_publish_year\<close>.\<close>

fun keepTitledDated :: "jsval list \<Rightarrow> error + jsval list" where
  "keepTitledDated [] = Inr []"
| "keepTitledDated (book # rest) =
     bindE (getp book ''title'') (\<lambda>title.
     bindE (keepTitledDated rest) (\<lambda>kept.
       Inr (if truthy (js_and title (oprop book ''first_publish_year'')) then book # kept else kept)))"

text \<open>The second \<open>filter\<close>, with the set \<open>seenTitles\<close> its callback updates.\<close>

fun keepFirstTitles :: "jsval list \<Rightarrow> ustring set \<Rightarrow> error + jsval list" where
  "keepFirstTitles [] seenTitles = Inr []"
| "keepFirstTitles (book # rest) seenTitles =
     bindE (getp book ''title'') (\<lambda>t.
     bindE (str_toLowerCase t) (\<lambda>lowered.
       let title = trim lowered in
       if title \<in> seenTitles then keepFirstTitles rest seenTitles
       else bindE (keepFirstTitles rest (insert title seenTitles)) (\<lambda>kept.
              Inr (if \<not> isExcludedTitle title then book # kept else kept))))"

text \<open>
  The comparison function of the \<open>sort\<close>. The subtraction converts its operands to
  numbers: a number is itself, and the conversion of any other value is the parameter
  \<open>toNumber\<close> of the model, with \<open>None\<close> for \<open>NaN\<close>. \<open>localeCompare\<close> is the second
  parameter. The result \<open>None\<close> is \<open>NaN\<close>. The titles compared are strings, since the
  records have passed the second filter.
\<close>

definition numberOf :: "(jsval \<Rightarrow> int option) \<Rightarrow> jsval \<Rightarrow> int option" where
  "numberOf toNumber v = (case v of JNum n \<Rightarrow> Some n | _ \<Rightarrow> toNumber v)"

definition js_minus :: "(jsval \<Rightarrow> int option) \<Rightarrow> jsval \<Rightarrow> jsval \<Rightarrow> int option" where
  "js_minus toNumber x y =
     (case (numberOf toNumber x, numberOf toNumber y) of
        (Some i, Some j) \<Rightarrow> Some (i - j)
      | _ \<Rightarrow> None)"

definition titleString :: "jsval \<Rightarrow> ustring" where
  "titleString book = (case oprop book ''title'' of JStr s \<Rightarrow> s | _ \<Rightarrow> [])"

definition compareBooks :: "(jsval \<Rightarrow> int option) \<Rightarrow> (ustring \<Rightarrow> ustring \<Rightarrow> int) \<Rightarrow>
    jsval \<Rightarrow> jsval \<Rightarrow> int option" where
  "compareBooks toNumber localeCompare a b =
     (let yearDiff = js_minus toNumber (js_or (oprop b ''first_publish_year'') (JNum 0))
                                       (js_or (oprop a ''first_publish_year'') (JNum 0))
      in if yearDiff \<noteq> Some 0 then yearDiff
         else Some (localeCompare (titleString a) (titleString b)))"

text \<open>
  \<open>Array.prototype.sort\<close> is stable and reads \<open>NaN\<close> from the comparison function as
  \<open>0\<close>. With a consistent comparison function its result is the one of any stable
  sorting algorithm; insertion from the right end is used here. With a comparison
  function that is not consistent the order depends on the algorithm of the host, except
  on a list in which every comparison of neighbours yields \<open>0\<close> or \<open>NaN\<close>, which is left
  as it is.
\<close>

definition sortCompare :: "('a \<Rightarrow> 'a \<Rightarrow> int option) \<Rightarrow> 'a \<Rightarrow> 'a \<Rightarrow> int" where
  "sortCompare comparefn x y = (case comparefn x y of None \<Rightarrow> 0 | Some v \<Rightarrow> v)"

fun insertSorted :: "('a \<Rightarrow> 'a \<Rightarrow> int option) \<Rightarrow> 'a \<Rightarrow> 'a list \<Rightarrow> 'a list" where
  "insertSorted comparefn x [] = [x]"
| "insertSorted comparefn x (y # ys) =
     (if sortCompare comparefn x y \<le> 0 then x # y # ys else y # insertSorted comparefn x ys)"

definition sortBy :: "('a \<Rightarrow> 'a \<Rightarrow> int option) \<Rightarrow> 'a list \<Rightarrow> 'a list" where
  "sortBy comparefn xs = foldr (insertSorted comparefn) xs []"

text \<open>\<open>filterBooks(books)\<close>: only an array has the method \<open>filter\<close>.\<close>

definition filterBooks :: "(jsval \<Rightarrow> int option) \<Rightarrow> (ustring \<Rightarrow> ustring \<Rightarrow> int) \<Rightarrow> jsval \<Rightarrow>
    error + jsval list" where
  "filterBooks toNumber localeCompare books =
     (case books of
        JArr bs \<Rightarrow>
          bindE (keepTitledDated bs) (\<lambda>dated.
          bindE (keepFirstTitles dated {}) (\<lambda>firsts.
            Inr (sortBy (compareBooks toNumber localeCompare) firsts)))
      | _ \<Rightarrow> Inl TypeError)"

section \<open>Genres (navigation.js, BooksPageManager.categorizeGenre)\<close>

definition capitalizeFirst :: "ustring \<Rightarrow> ustring" where
  "capitalizeFirst str = toUpperCase (take 1 str) @ toLowerCase (drop 1 str)"

text \<open>\<open>genreMapping\<close>, in the order of the object literal, which \<open>Object.entries\<close> keeps.\<close>

definition genreMapping :: "(ustring \<times> ustring) list" where
  "genreMapping = map (\<lambda>(key, genre). (lit key, lit genre))
     [(''fantasy'', ''Fantasy''),
      (''magic'', ''Fantasy''),
      (''wizards'', ''Fantasy''),
      (''witches'', ''Fantasy''),
      (''magical'', ''Fantasy''),
      (''supernatural'', ''Fantasy''),
      (''mythology'', ''Fantasy & Mythology''),
      (''fairy tales'', ''Fantasy & Fairy Tales''),
      (''detective'', ''Mystery & Detective''),
      (''mystery'', ''Mystery & Detective''),
      (''crime'', ''Crime & Mystery''),
      (''thriller'', ''Thriller''),
      (''suspense'', ''Suspense''),
      (''police'', ''Crime & Detective''),
      (''fiction'', ''Fiction''),
      (''literary fiction'', ''Literary Fiction''),
      (''contemporary fiction'', ''Contemporary Fiction''),
      (''historical fiction'', ''Historical Fiction''),
      (''adventure'', ''Adventure Fiction''),
      (''romance'', ''Romance''),
      (''children'', ''Children'' @ [CHR 0x27] @ ''s Literature''),
      (''young adult'', ''Young Adult Fiction''),
      (''teen'', ''Young Adult Fiction''),
      (''juvenile fiction'', ''Children'' @ [CHR 0x27] @ ''s Fiction''),
      (''biography'', ''Biography & Memoir''),
      (''autobiography'', ''Biography & Memoir''),
      (''memoir'', ''Biography & Memoir''),
      (''biography & autobiography'', ''Biography & Memoir''),
      (''philosophy'', ''Philosophy''),
      (''psychology'', ''Psychology''),
      (''politics'', ''Politics & Government''),
      (''history'', ''History''),
      (''science'', ''Science''),
      (''education'', ''Education''),
      (''social'', ''Social Issues''),
      (''sociology'', ''Social Sciences''),
      (''friendship'', ''Friendship & Relationships''),
      (''coming of age'', ''Coming of Age''),
      (''school'', ''School Stories''),
      (''boarding school'', ''School Stories''),
      (''orphans'', ''Family & Social Issues''),
      (''families'', ''Family Stories''),
      (''london'', ''British Literature''),
      (''england'', ''British Literature''),
      (''british'', ''British Literature''),
      (''scotland'', ''Scottish Literature''),
      (''film'', ''Film Adaptations''),
      (''movie'', ''Film Adaptations''),
      (''television'', ''TV Adaptations''),
      (''adaptation'', ''Adaptations''),
      (''authorship'', ''Writing & Publishing''),
      (''literary criticism'', ''Literary Criticism''),
      (''book clubs'', ''Reading & Book Culture'')]"

text \<open>\<open>s.split(sep)\<close> for a non-empty separator string.\<close>

function splitOn :: "ustring \<Rightarrow> ustring \<Rightarrow> ustring \<Rightarrow> ustring list" where
  "splitOn sep piece [] = [piece]"
| "splitOn sep piece (c # cs) =
     (if sep \<noteq> [] \<and> prefix sep (c # cs)
      then piece # splitOn sep [] (drop (length sep) (c # cs))
      else splitOn sep (piece @ [c]) cs)"
  by pat_completeness auto
termination
  by (relation "measure (\<lambda>(sep, piece, s). length s)") auto

text \<open>\<open>s.replace(pat, rep)\<close> for a non-empty string \<open>pat\<close>: the first occurrence only.\<close>

fun replaceFirst :: "ustring \<Rightarrow> ustring \<Rightarrow> ustring \<Rightarrow> ustring" where
  "replaceFirst pat rep [] = []"
| "replaceFirst pat rep (c # cs) =
     (if prefix pat (c # cs) then rep @ drop (length pat) (c # cs)
      else c # replaceFirst pat rep cs)"

text \<open>\<open>s.replace(/\s+/g, ' ')\<close>; the flag tells whether the previous character was white space.\<close>

fun collapseSpaces :: "bool \<Rightarrow> ustring \<Rightarrow> ustring" where
  "collapseSpaces inRun [] = []"
| "collapseSpaces inRun (c # cs) =
     (if isSpace c
      then (if inRun then collapseSpaces True cs else 0x20 # collapseSpaces True cs)
      else c # collapseSpaces False cs)"

definition startsWithDigit :: "ustring \<Rightarrow> bool" where
  "startsWithDigit s = (case s of [] \<Rightarrow> False | c # _ \<Rightarrow> 0x30 \<le> c \<and> c \<le> 0x39)"

text \<open>
  \<open>categorizeGenre(subject)\<close>; \<open>None\<close> is \<open>null\<close>. The exact lookup \<open>genreMapping[key]\<close>
  is the lookup among the entries of the literal (the inherited keys \<open>constructor\<close> and
  \<open>__proto__\<close>, for which the source returns an object that is not a string, are left out).
\<close>

definition categorizeGenre :: "jsval \<Rightarrow> ustring option" where
  "categorizeGenre v =
     (case v of
        JStr subject \<Rightarrow>
          if subject = [] then None
          else
            let lowerSubject = trim (toLowerCase subject) in
            if length lowerSubject > 60 \<or>
               includes_str lowerSubject (lit ''--'') \<or>
               includes_str lowerSubject (lit ''('') \<or>
               includes_str lowerSubject (lit ''juvenile'') \<or>
               includes_str lowerSubject (lit ''accessible book'') \<or>
               includes_str lowerSubject (lit ''large type books'') \<or>
               includes_str lowerSubject (lit ''readers'') \<or>
               includes_str lowerSubject (lit ''grade'') \<or>
               startsWithDigit lowerSubject \<or>
               includes_str lowerSubject (lit ''bibliography'') \<or>
               includes_str lowerSubject (lit ''indexes'')
            then None
            else (case map_of genreMapping lowerSubject of
                Some genre \<Rightarrow> Some genre
              | None \<Rightarrow>
            (case find (\<lambda>(key, genre). includes_str lowerSubject key) genreMapping of
                Some (key, genre) \<Rightarrow> Some genre
              | None \<Rightarrow>
            (case (if includes_str lowerSubject (lit '' and '')
                   then find (\<lambda>part. map_of genreMapping part \<noteq> None)
                          (map trim (splitOn (lit '' and '') [] lowerSubject))
                   else None) of
                Some part \<Rightarrow> map_of genreMapping part
              | None \<Rightarrow>
            if includes_str lowerSubject (lit '' in literature'')
            then Some (capitalizeFirst (trim (replaceFirst (lit '' in literature'') [] lowerSubject))
                       @ lit '' in Literature'')
            else if length subject \<le> 40 \<and> \<not> includes_str lowerSubject (lit ''/'') \<and>
                    \<not> includes_str lowerSubject (lit '','')
            then Some (trim (collapseSpaces False
                         (join_with (lit '' '') (map capitalizeFirst (splitOn (lit '' '') [] subject)))))
            else None)))
      | _ \<Rightarrow> None)"

section \<open>Fuzzy search (navigation.js, BooksPageManager.fuzzySearch)\<close>

text \<open>
  The \<open>while\<close> loop of \<open>fuzzySearch\<close>, with its three counters. \<open>textIndex\<close> grows in
  every iteration, which bounds the loop.
\<close>

function scan :: "ustring \<Rightarrow> ustring \<Rightarrow> nat \<Rightarrow> nat \<Rightarrow> nat \<Rightarrow> nat" where
  "scan query text queryIndex textIndex matches =
     (if queryIndex < length query \<and> textIndex < length text
      then (if query ! queryIndex = text ! textIndex
            then scan query text (queryIndex + 1) (textIndex + 1) (matches + 1)
            else scan query text queryIndex (textIndex + 1) matches)
      else matches)"
  by pat_completeness auto
termination
  by (relation "measure (\<lambda>(query, text, queryIndex, textIndex, matches). length text - textIndex)") auto

declare scan.simps [simp del]

text \<open>
  \<open>!query\<close> and \<open>!text\<close> hold of a string exactly when it is empty. The quotient
  \<open>matches / query.length\<close> is a quotient of two integers below \<open>2^53\<close> and is compared
  with the literal \<open>0.7\<close>; it is modelled by the rational quotient compared with \<open>7/10\<close>
  (the double nearest to a quotient below \<open>7/10\<close> is below the double nearest to \<open>7/10\<close>
  for every denominator a string length can take).
\<close>

definition fuzzySearch :: "ustring \<Rightarrow> ustring \<Rightarrow> bool" where
  "fuzzySearch query text =
     (if query = [] \<or> text = [] then False
      else let q = toLowerCase query; t = toLowerCase text in
        if includes_str t q then True
        else (of_nat (scan q t 0 0 0) / of_nat (length q) :: rat) \<ge> 7 / 10)"

subsection \<open>The scan in the words of the specification\<close>

text \<open>
  For each character of the query in order, the cursor advances in the text until a match
  is found, which counts as a hit; the cursor never moves back, so once it has reached the
  end of the text no later character is a hit. \<open>same x c\<close> tells whether the character
  \<open>x\<close> of the text matches the character \<open>c\<close> of the query.
\<close>

fun greedy_hits :: "(nat \<Rightarrow> nat \<Rightarrow> bool) \<Rightarrow> ustring \<Rightarrow> ustring \<Rightarrow> nat" where
  "greedy_hits same [] t = 0"
| "greedy_hits same (c # q) t =
     (case dropWhile (\<lambda>x. \<not> same x c) t of
        [] \<Rightarrow> 0
      | _ # t' \<Rightarrow> Suc (greedy_hits same q t'))"

definition ci_substring :: "ustring \<Rightarrow> ustring \<Rightarrow> bool" where
  "ci_substring q t = sublist (toLowerCase q) (toLowerCase t)"

text \<open>
  The acceptance as the specification words it, on the characters of the query and the
  text as they are given: two characters match without regard to case when their lower
  cases are equal, and the hits are divided by the length of the query.
\<close>

definition sameLetter :: "nat \<Rightarrow> nat \<Rightarrow> bool" where
  "sameLetter x c = (toLowerCase [x] = toLowerCase [c])"

definition specFuzzySearch :: "ustring \<Rightarrow> ustring \<Rightarrow> bool" where
  "specFuzzySearch q t =
     (if ci_substring q t then True
      else (of_nat (greedy_hits sameLetter q t) / of_nat (length q) :: rat) \<ge> 7 / 10)"

section \<open>Notions used in the statements\<close>

text \<open>
  The normalized title of a record (lower-cased, trimmed), the records the first filter
  keeps, and the records on which the ingest does not throw: values other than
  \<open>undefined\<close> and \<open>null\<close> whose \<open>title\<close> is a string or counts as false.
\<close>

definition normTitle :: "jsval \<Rightarrow> ustring" where
  "normTitle book = trim (toLowerCase (titleString book))"

definition catalogued :: "jsval \<Rightarrow> bool" where
  "catalogued book = (truthy (oprop book ''title'') \<and> truthy (oprop book ''first_publish_year''))"

definition wellFormedBook :: "jsval \<Rightarrow> bool" where
  "wellFormedBook book =
     (\<not> nullish book \<and> (case oprop book ''title'' of JStr s \<Rightarrow> True | t \<Rightarrow> \<not> truthy t))"



text \<open>
  The lexicographic order of strings, by code units: negative, zero or positive as the
  first string is before, equal to or after the second.
\<close>

fun codeUnitCompare :: "ustring \<Rightarrow> ustring \<Rightarrow> int" where
  "codeUnitCompare [] [] = 0"
| "codeUnitCompare [] (y # ys) = - 1"
| "codeUnitCompare (x # xs) [] = 1"
| "codeUnitCompare (x # xs) (y # ys) =
     (if x < y then - 1
      else if y < x then 1
      else codeUnitCompare xs ys)"

text \<open>
  Example data. \<open>letterCompare\<close> compares as the host's \<open>localeCompare\<close> does, under
  its root collation, on titles made of ASCII letters, digits and spaces: by the letters
  without regard to case first and, between titles equal up to case, the lower-case
  letter first. \<open>noNumber\<close> is a conversion that yields \<open>NaN\<close> on everything that is
  not a number, as the host's does on the date used below; \<open>bookRecord\<close> is a record
  with a title and a year.
\<close>

definition letterCompare :: "ustring \<Rightarrow> ustring \<Rightarrow> int" where
  "letterCompare x y =
     (if codeUnitCompare (toLowerCase x) (toLowerCase y) \<noteq> 0
      then codeUnitCompare (toLowerCase x) (toLowerCase y)
      else codeUnitCompare y x)"

definition noNumber :: "jsval \<Rightarrow> int option" where
  "noNumber v = None"

definition bookRecord :: "ustring \<Rightarrow> int \<Rightarrow> jsval" where
  "bookRecord title year = JObj [(''title'', JStr title), (''first_publish_year'', JNum year)]"

definition exampleBooks :: "jsval list" where
  "exampleBooks =
     [bookRecord (lit ''Casual Vacancy'') 2012, bookRecord (lit ''CASUAL VACANCY '') 2012,
      bookRecord (lit ''Troubled Blood'') 2020, bookRecord (lit ''The Ickabog'') 2020,
      bookRecord (lit ''Harry Potter Box Set'') 2007,
      JObj [(''title'', JStr (lit ''Untitled''))]]"

definition exampleCatalog :: "jsval list" where
  "exampleCatalog =
     [bookRecord (lit ''The Ickabog'') 2020, bookRecord (lit ''Troubled Blood'') 2020,
      bookRecord (lit ''Casual Vacancy'') 2012]"



definition dottedTitle :: ustring where
  "dottedTitle = [0x130, 0x78]"




text \<open>
  A query of seven letters followed by three capital I with a dot above, whose lower case
  has thirteen code units.
\<close>

definition dottedQuery :: ustring where
  "dottedQuery = lit ''abcdefg'' @ [0x130, 0x130, 0x130]"

text \<open>
  For the merge: the key under which the second and third loop record a title (the
  lower-cased title), the key under which the first loop stores a search hit (the
  lower-cased, trimmed title), and the lower-cased title of a record of the result.
\<close>

definition workKey :: "jsval \<Rightarrow> ustring option" where
  "workKey work = (case oprop work ''title'' of
                     JStr s \<Rightarrow> if s = [] then None else Some (toLowerCase s)
                   | _ \<Rightarrow> None)"

definition searchKey :: "jsval \<Rightarrow> ustring option" where
  "searchKey hit = (case oprop hit ''title'' of
                      JStr s \<Rightarrow> if s = [] then None else Some (trim (toLowerCase s))
                    | _ \<Rightarrow> None)"

definition lowerTitle :: "jsval \<Rightarrow> ustring" where
  "lowerTitle book = toLowerCase (titleString book)"

text \<open>
  The precedence in the words of the specification: for a field, the search hit's value
  if it counts as true, else the work detail's, else the bare work's.
\<close>

definition specPrecedence :: "jsval \<Rightarrow> jsval \<Rightarrow> jsval \<Rightarrow> string \<Rightarrow> jsval" where
  "specPrecedence searchHit workDetail work field =
     js_or (js_or (oprop searchHit field) (oprop workDetail field)) (oprop work field)"

text \<open>
  For the descriptions: a book record, as the data model has it. Its title is a string,
  and its \<open>subject\<close> is absent (or counts as false) or is an array of values that convert
  to strings, as strings do.
\<close>

definition listedSubjects :: "jsval \<Rightarrow> bool" where
  "listedSubjects book =
     (case oprop book ''subject'' of JArr xs \<Rightarrow> \<not> list_ex unconvertible xs | v \<Rightarrow> \<not> truthy v)"

definition isBookRecord :: "jsval \<Rightarrow> bool" where
  "isBookRecord book =
     ((case oprop book ''title'' of JStr t \<Rightarrow> True | _ \<Rightarrow> False) \<and> listedSubjects book)"

text \<open>Example data for the merge, the descriptions and the catalog request.\<close>

definition noDetail :: "jsval \<Rightarrow> fetch_result" where
  "noDetail work = Rejected AbortError"

definition exampleWork :: jsval where
  "exampleWork = JObj
     [(''title'', JStr (lit ''Casual Vacancy'')), (''key'', JStr (lit ''/works/OL16313123W'')),
      (''first_publish_date'', JStr (lit ''2012'')), (''description'', JStr (lit ''From the work''))]"

definition exampleHit :: jsval where
  "exampleHit = JObj
     [(''title'', JStr (lit ''casual vacancy'')), (''first_publish_year'', JNum 2012),
      (''first_publish_date'', JStr (lit ''September 2012'')), (''language'', JArr [JStr (lit ''eng'')]),
      (''description'', JStr (lit ''From the search hit''))]"

definition exampleDetail :: jsval where
  "exampleDetail = JObj [(''subjects'', JArr [JStr (lit ''Fiction'')]), (''subtitle'', JStr (lit ''A Novel''))]"

definition exampleNet :: "jsval \<Rightarrow> fetch_result" where
  "exampleNet work = Response True (Inr exampleDetail)"

definition spacedHit :: jsval where
  "spacedHit = JObj [(''title'', JStr (lit ''Casual Vacancy '')), (''first_publish_year'', JNum 2012)]"

definition exampleDataset :: fetch_result where
  "exampleDataset = Response True (Inr (JObj [(''rows'', JArr
     [JObj [(''row'', JObj [(''title'', JStr (lit ''The Hobbit'')), (''authors'', JStr (lit ''J.R.R. Tolkien'')),
                           (''description'', JStr (lit ''In a hole in the ground there lived a hobbit.''))])],
      JObj [(''row'', JObj [(''title'', JStr (lit ''Harry Potter and the Chamber of Secrets'')),
                           (''authors'', JStr (lit ''J.K. Rowling'')),
                           (''description'', JStr (lit ''The Dursleys were so mean and hideous that summer. All Harry Potter wanted was to get back to Hogwarts! But a house-elf named Dobby warns of danger? Strange things happen.''))])]])]))"

definition chamberBook :: jsval where
  "chamberBook = JObj [(''title'', JStr (lit ''Harry Potter and the Chamber of Secrets'')),
                      (''subject'', JArr [JStr (lit ''Fantasy''), JStr (lit ''Magic'')])]"

definition nullWorks :: cachedResponse where
  "nullWorks = \<lparr>resp_ok = JBool True, resp_json = JObj [(''entries'', JArr [Null])]\<rparr>"

definition searchDocs :: cachedResponse where
  "searchDocs = \<lparr>resp_ok = JBool True, resp_json = JObj [(''docs'', JArr [exampleHit])]\<rparr>"

definition copiedDocs :: cachedResponse where
  "copiedDocs = \<lparr>resp_ok = Undefined, resp_json = JObj [(''docs'', JArr [exampleHit])]\<rparr>"

section \<open>Properties of the fuzzy search\<close>

lemma includes_sublist: "includes_str t q \<longleftrightarrow> sublist q t"
  by (induction t) (auto simp: sublist_Cons_right)

lemma greedy_hits_Nil: "greedy_hits same q [] = 0"
  by (cases q) auto

lemma scan_greedy:
  "qi \<le> length q \<Longrightarrow> ti \<le> length t \<Longrightarrow>
   scan q t qi ti m = m + greedy_hits (=) (drop qi q) (drop ti t)"
proof (induction q t qi ti m rule: scan.induct)
  case (1 q t qi ti m)
  show ?case
  proof (cases "qi < length q \<and> ti < length t")
    case False
    then have "drop qi q = [] \<or> drop ti t = []"
      using "1.prems" by auto
    then show ?thesis
      using False by (subst scan.simps) (auto simp: greedy_hits_Nil)
  next
    case True
    have dq: "drop qi q = q ! qi # drop (Suc qi) q" and dt: "drop ti t = t ! ti # drop (Suc ti) t"
      using True by (simp_all add: Cons_nth_drop_Suc)
    show ?thesis
    proof (cases "q ! qi = t ! ti")
      case eq: True
      have "scan q t qi ti m = scan q t (qi + 1) (ti + 1) (m + 1)"
        using True eq by (subst scan.simps) simp
      also have "\<dots> = (m + 1) + greedy_hits (=) (drop (qi + 1) q) (drop (ti + 1) t)"
        using "1.IH"(1) True eq by simp
      finally show ?thesis
        using eq by (simp add: dq dt)
    next
      case ne: False
      have "scan q t qi ti m = scan q t qi (ti + 1) m"
        using True ne by (subst scan.simps) simp
      also have "\<dots> = m + greedy_hits (=) (drop qi q) (drop (ti + 1) t)"
        using "1.IH"(2) True ne "1.prems" by simp
      finally show ?thesis
        using ne by (simp add: dq dt)
    qed
  qed
qed

text \<open>
  Claim C7, as the code has it. For non-empty \<open>query\<close> and \<open>text\<close>, \<open>fuzzySearch\<close>
  accepts when the lower-cased text contains the lower-cased query, and otherwise accepts
  exactly when the hits of the single non-backtracking scan of the lower-cased text for
  the code units of the lower-cased query, divided by the length of the lower-cased
  query, reach \<open>0.7\<close>.
\<close>

theorem fuzzySearch_scan_ratio:
  assumes "q \<noteq> []" and "t \<noteq> []"
  shows "fuzzySearch q t =
           (if ci_substring q t then True
            else (of_nat (greedy_hits (=) (toLowerCase q) (toLowerCase t)) /
                  of_nat (length (toLowerCase q)) :: rat) \<ge> 7 / 10)"
  using assms scan_greedy [of 0 "toLowerCase q" 0 "toLowerCase t" 0]
  by (simp add: fuzzySearch_def ci_substring_def includes_sublist Let_def)

theorem fuzzySearch_scan_ratio_witness:
  "lit ''hpot'' \<noteq> [] \<and> lit ''Harry Potter'' \<noteq> [] \<and>
   \<not> ci_substring (lit ''hpot'') (lit ''Harry Potter'') \<and>
   greedy_hits (=) (toLowerCase (lit ''hpot'')) (toLowerCase (lit ''Harry Potter'')) = 4 \<and>
   length (toLowerCase (lit ''hpot'')) = 4 \<and>
   fuzzySearch (lit ''hpot'') (lit ''Harry Potter'')"
proof -
  have n: "lit ''hpot'' \<noteq> []" "lit ''Harry Potter'' \<noteq> []"
    by code_simp+
  have s: "\<not> ci_substring (lit ''hpot'') (lit ''Harry Potter'')"
    by code_simp
  have g: "greedy_hits (=) (toLowerCase (lit ''hpot'')) (toLowerCase (lit ''Harry Potter'')) = 4"
    by code_simp
  have l: "length (toLowerCase (lit ''hpot'')) = 4"
    by code_simp
  have "fuzzySearch (lit ''hpot'') (lit ''Harry Potter'')"
    using fuzzySearch_scan_ratio [OF n] s g l by simp
  with n s g l show ?thesis
    by (intro conjI)
qed

text \<open>
  The claim fails when lower-casing lengthens the query: for the seven letters "abcdefg"
  followed by three capital I with a dot above, searched in "abcdefg", the scan has seven
  hits; the query has ten characters, and seven tenths reach \<open>0.7\<close>, but the code divides
  by the thirteen code units of the lower-cased query and rejects.
\<close>

theorem fuzzySearch_lengthened_query:
  "fuzzySearch dottedQuery (lit ''abcdefg'') = False \<and>
   \<not> ci_substring dottedQuery (lit ''abcdefg'') \<and>
   greedy_hits sameLetter dottedQuery (lit ''abcdefg'') = 7 \<and>
   length dottedQuery = 10 \<and>
   length (toLowerCase dottedQuery) = 13 \<and>
   specFuzzySearch dottedQuery (lit ''abcdefg'') = True"
proof -
  have s: "\<not> ci_substring dottedQuery (lit ''abcdefg'')"
    by code_simp
  have i: "\<not> includes_str (toLowerCase (lit ''abcdefg'')) (toLowerCase dottedQuery)"
    by code_simp
  have n: "dottedQuery \<noteq> []" "lit ''abcdefg'' \<noteq> []"
    by code_simp+
  have c: "scan (toLowerCase dottedQuery) (toLowerCase (lit ''abcdefg'')) 0 0 0 = 7"
    by code_simp
  have g: "greedy_hits sameLetter dottedQuery (lit ''abcdefg'') = 7"
    by code_simp
  have l: "length dottedQuery = 10" "length (toLowerCase dottedQuery) = 13"
    by code_simp+
  have f: "fuzzySearch dottedQuery (lit ''abcdefg'') = False"
    using n i c l by (simp add: fuzzySearch_def Let_def)
  have p: "specFuzzySearch dottedQuery (lit ''abcdefg'') = True"
    using s g l by (simp add: specFuzzySearch_def)
  from f s g l p show ?thesis
    by (intro conjI)
qed

text \<open>
  Claim C10. When the query or the text is empty, \<open>fuzzySearch\<close> returns false before
  the quotient by the length of the query is formed.
\<close>

theorem fuzzySearch_empty:
  "q = [] \<or> t = [] \<Longrightarrow> fuzzySearch q t = False"
  by (simp add: fuzzySearch_def)

theorem fuzzySearch_empty_witness:
  "fuzzySearch [] (lit ''Harry Potter'') = False \<and> fuzzySearch (lit ''harry'') [] = False"
  using fuzzySearch_empty [of "[]" "lit ''Harry Potter''"] fuzzySearch_empty [of "lit ''harry''" "[]"]
  by simp

section \<open>Properties of the ingest\<close>

lemma getp_Inr: "getp v k = Inr x \<longleftrightarrow> \<not> nullish v \<and> x = oprop v k"
  by (auto simp: getp_def)

lemma getp_Inl: "getp v k = Inl e \<longleftrightarrow> nullish v \<and> e = TypeError"
  by (auto simp: getp_def)

lemma str_toLowerCase_Inr: "str_toLowerCase v = Inr l \<longleftrightarrow> (\<exists>s. v = JStr s \<and> l = toLowerCase s)"
  by (cases v) auto

lemma bindE_Inr: "bindE m f = Inr y \<longleftrightarrow> (\<exists>x. m = Inr x \<and> f x = Inr y)"
  by (cases m) (auto simp: bindE_def)

lemma truthy_js_and: "truthy (js_and a b) \<longleftrightarrow> truthy a \<and> truthy b"
  by (simp add: js_and_def)

lemma length_trim_le: "length (trim s) \<le> length s"
proof -
  have "length (trim s) \<le> length (dropWhile isSpace s)"
    unfolding trim_def by (simp add: length_dropWhile_le le_trans[OF length_dropWhile_le])
  also have "\<dots> \<le> length s"
    by (rule length_dropWhile_le)
  finally show ?thesis .
qed

subsection \<open>The first filter\<close>

lemma keepTitledDated_filter:
  "keepTitledDated bs = Inr xs \<Longrightarrow> xs = filter catalogued bs"
  by (induction bs arbitrary: xs)
     (auto simp: bindE_Inr getp_Inr truthy_js_and catalogued_def)

lemma keepTitledDated_total:
  "\<forall>b\<in>set bs. \<not> nullish b \<Longrightarrow> \<exists>xs. keepTitledDated bs = Inr xs"
  by (induction bs) (auto simp: bindE_Inr getp_Inr)

lemma keepTitledDated_nullish:
  "keepTitledDated bs = Inr xs \<Longrightarrow> b \<in> set bs \<Longrightarrow> \<not> nullish b"
  by (induction bs arbitrary: xs) (auto simp: bindE_Inr getp_Inr)

subsection \<open>The second filter\<close>

lemma keepFirstTitles_Cons:
  "keepFirstTitles (x # xs) seen = Inr ys \<longleftrightarrow>
     (\<exists>s. oprop x ''title'' = JStr s) \<and> \<not> nullish x \<and>
     (if normTitle x \<in> seen then keepFirstTitles xs seen = Inr ys
      else \<exists>kept. keepFirstTitles xs (insert (normTitle x) seen) = Inr kept \<and>
             ys = (if \<not> isExcludedTitle (normTitle x) then x # kept else kept))"
proof (cases "\<exists>s. oprop x ''title'' = JStr s")
  case True
  then obtain s where s: "oprop x ''title'' = JStr s" ..
  have nt: "normTitle x = trim (toLowerCase s)"
    by (simp add: normTitle_def titleString_def s)
  show ?thesis
    unfolding nt by (auto simp add: bindE_Inr getp_Inr s Let_def)
next
  case False
  then show ?thesis
    by (simp add: bindE_Inr getp_Inr str_toLowerCase_Inr)
qed

lemma keepFirstTitles_sound:
  "keepFirstTitles xs seen = Inr ys \<Longrightarrow> b \<in> set ys \<Longrightarrow>
   (\<exists>t. oprop b ''title'' = JStr t) \<and> normTitle b \<notin> seen \<and> \<not> isExcludedTitle (normTitle b) \<and>
   (\<exists>pre post. xs = pre @ b # post \<and> (\<forall>x\<in>set pre. normTitle x \<noteq> normTitle b))"
proof (induction xs arbitrary: seen ys)
  case Nil
  then show ?case by simp
next
  case (Cons x xs)
  note step = Cons.prems(1)[unfolded keepFirstTitles_Cons]
  show ?case
  proof (cases "normTitle x \<in> seen")
    case True
    with step have r: "keepFirstTitles xs seen = Inr ys"
      by simp
    from Cons.IH[OF r Cons.prems(2)] obtain pre post where
      a: "(\<exists>t. oprop b ''title'' = JStr t)" "normTitle b \<notin> seen" "\<not> isExcludedTitle (normTitle b)"
      and d: "xs = pre @ b # post" "\<forall>x\<in>set pre. normTitle x \<noteq> normTitle b"
      by blast
    have "x # xs = (x # pre) @ b # post" "\<forall>y\<in>set (x # pre). normTitle y \<noteq> normTitle b"
      using d a True by auto
    with a show ?thesis by blast
  next
    case False
    with step obtain kept where
      r: "keepFirstTitles xs (insert (normTitle x) seen) = Inr kept"
      and ys: "ys = (if \<not> isExcludedTitle (normTitle x) then x # kept else kept)"
      by auto
    show ?thesis
    proof (cases "b \<in> set kept")
      case True
      from Cons.IH[OF r True] obtain pre post where
        a: "(\<exists>t. oprop b ''title'' = JStr t)" "normTitle b \<notin> insert (normTitle x) seen"
           "\<not> isExcludedTitle (normTitle b)"
        and d: "xs = pre @ b # post" "\<forall>x\<in>set pre. normTitle x \<noteq> normTitle b"
        by blast
      have "x # xs = (x # pre) @ b # post" "\<forall>y\<in>set (x # pre). normTitle y \<noteq> normTitle b"
        using d a by auto
      with a show ?thesis by blast
    next
      case nk: False
      with Cons.prems(2) ys have bx: "b = x" and ne: "\<not> isExcludedTitle (normTitle x)"
        by (auto split: if_splits)
      have "x # xs = [] @ b # xs" "\<forall>y\<in>set []. normTitle y \<noteq> normTitle b"
        using bx by simp_all
      moreover have "\<exists>t. oprop b ''title'' = JStr t"
        using step bx by simp
      ultimately show ?thesis
        using bx ne False by blast
    qed
  qed
qed



lemma keepFirstTitles_total:
  "\<forall>b\<in>set xs. wellFormedBook b \<and> truthy (oprop b ''title'') \<Longrightarrow> \<exists>ys. keepFirstTitles xs seen = Inr ys"
proof (induction xs arbitrary: seen)
  case Nil
  then show ?case by simp
next
  case (Cons x xs)
  then obtain s where s: "oprop x ''title'' = JStr s" and nx: "\<not> nullish x"
    by (auto simp: wellFormedBook_def split: jsval.splits)
  from Cons obtain ys1 ys2 where "keepFirstTitles xs seen = Inr ys1"
    "keepFirstTitles xs (insert (normTitle x) seen) = Inr ys2"
    by (metis list.set_intros(2))
  then show ?case
    unfolding keepFirstTitles_Cons using s nx by auto
qed

subsection \<open>The sort\<close>

lemma set_insertSorted: "set (insertSorted c x ys) = insert x (set ys)"
  by (induction ys) auto

lemma set_sortBy: "set (sortBy c xs) = set xs"
  by (induction xs) (auto simp: sortBy_def set_insertSorted)








lemma filterBooks_Inr:
  "filterBooks tn lc (JArr bs) = Inr out \<longleftrightarrow>
     (\<forall>b\<in>set bs. \<not> nullish b) \<and>
     (\<exists>firsts. keepFirstTitles (filter catalogued bs) {} = Inr firsts \<and>
        out = sortBy (compareBooks tn lc) firsts)"
proof
  assume "filterBooks tn lc (JArr bs) = Inr out"
  then obtain dated firsts where d: "keepTitledDated bs = Inr dated"
    and f: "keepFirstTitles dated {} = Inr firsts" and o: "out = sortBy (compareBooks tn lc) firsts"
    by (auto simp: filterBooks_def bindE_Inr)
  show "(\<forall>b\<in>set bs. \<not> nullish b) \<and>
     (\<exists>firsts. keepFirstTitles (filter catalogued bs) {} = Inr firsts \<and>
        out = sortBy (compareBooks tn lc) firsts)"
    using keepTitledDated_filter[OF d] keepTitledDated_nullish[OF d] f o by auto
next
  assume r: "(\<forall>b\<in>set bs. \<not> nullish b) \<and>
     (\<exists>firsts. keepFirstTitles (filter catalogued bs) {} = Inr firsts \<and>
        out = sortBy (compareBooks tn lc) firsts)"
  then obtain dated where d: "keepTitledDated bs = Inr dated"
    using keepTitledDated_total by blast
  show "filterBooks tn lc (JArr bs) = Inr out"
    using r d keepTitledDated_filter[OF d] by (auto simp: filterBooks_def bindE_Inr)
qed

lemma filterBooks_total:
  assumes "\<forall>b\<in>set bs. wellFormedBook b"
  shows "\<exists>out. filterBooks tn lc (JArr bs) = Inr out"
proof -
  have "\<forall>b\<in>set (filter catalogued bs). wellFormedBook b \<and> truthy (oprop b ''title'')"
    using assms by (auto simp: catalogued_def)
  then obtain firsts where "keepFirstTitles (filter catalogued bs) {} = Inr firsts"
    using keepFirstTitles_total by blast
  moreover have "\<forall>b\<in>set bs. \<not> nullish b"
    using assms by (auto simp: wellFormedBook_def)
  ultimately show ?thesis
    by (auto simp: filterBooks_Inr)
qed




text \<open>
  Claim C5, as the code has it. Every record of the output of the ingest has a truthy
  \<open>first_publish_year\<close> and a title that is a string whose normalized form (lower-cased,
  trimmed) has more than two code units and contains none of the excluded terms; the
  title itself has more than two code units whenever lower-casing does not lengthen it.
\<close>

theorem filterBooks_records_valid:
  "((\<forall>b\<in>set bs. wellFormedBook b) \<longrightarrow> (\<exists>out. filterBooks toNumber localeCompare (JArr bs) = Inr out)) \<and>
   (\<forall>out. filterBooks toNumber localeCompare (JArr bs) = Inr out \<longrightarrow>
      (\<forall>b\<in>set out. truthy (oprop b ''first_publish_year'') \<and>
         (\<exists>t. oprop b ''title'' = JStr t \<and> length (trim (toLowerCase t)) > 2 \<and>
              (length (toLowerCase t) \<le> length t \<longrightarrow> length t > 2) \<and>
              (\<forall>term\<in>set excludedTerms. \<not> includes_str (trim (toLowerCase t)) term))))"
proof (intro conjI allI impI ballI)
  assume "\<forall>b\<in>set bs. wellFormedBook b"
  then show "\<exists>out. filterBooks toNumber localeCompare (JArr bs) = Inr out"
    by (rule filterBooks_total)
next
  fix out b
  assume "filterBooks toNumber localeCompare (JArr bs) = Inr out" and b: "b \<in> set out"
  then obtain firsts where f: "keepFirstTitles (filter catalogued bs) {} = Inr firsts"
    and o: "out = sortBy (compareBooks toNumber localeCompare) firsts"
    by (auto simp: filterBooks_Inr)
  have bf: "b \<in> set firsts" using b by (simp add: o set_sortBy)
  from keepFirstTitles_sound[OF f bf] obtain t pre post where
    t: "oprop b ''title'' = JStr t" and ne: "\<not> isExcludedTitle (normTitle b)"
    and d: "filter catalogued bs = pre @ b # post"
    by blast
  have "b \<in> set (filter catalogued bs)" using d by simp
  then show "truthy (oprop b ''first_publish_year'')"
    by (simp add: catalogued_def)
  have nt: "normTitle b = trim (toLowerCase t)"
    by (simp add: normTitle_def titleString_def t)
  have long: "length (trim (toLowerCase t)) > 2"
    using ne by (simp add: isExcludedTitle_def nt)
  have orig: "length t > 2" if "length (toLowerCase t) \<le> length t"
    using long length_trim_le[of "toLowerCase t"] that by simp
  have terms: "\<forall>term\<in>set excludedTerms. \<not> includes_str (trim (toLowerCase t)) term"
    using ne by (simp add: isExcludedTitle_def nt list_ex_iff)
  show "\<exists>t. oprop b ''title'' = JStr t \<and> length (trim (toLowerCase t)) > 2 \<and>
              (length (toLowerCase t) \<le> length t \<longrightarrow> length t > 2) \<and>
              (\<forall>term\<in>set excludedTerms. \<not> includes_str (trim (toLowerCase t)) term)"
    using t long orig terms by (intro exI[of _ t] conjI impI)
qed

theorem filterBooks_records_valid_witness:
  "filterBooks noNumber letterCompare (JArr exampleBooks) = Inr exampleCatalog \<and>
   truthy (oprop (bookRecord (lit ''The Ickabog'') 2020) ''first_publish_year'') \<and>
   (\<exists>t. oprop (bookRecord (lit ''The Ickabog'') 2020) ''title'' = JStr t \<and>
        length (trim (toLowerCase t)) > 2 \<and> length t > 2)"
proof -
  have e: "filterBooks noNumber letterCompare (JArr exampleBooks) = Inr exampleCatalog"
    by code_simp
  have m: "bookRecord (lit ''The Ickabog'') 2020 \<in> set exampleCatalog"
    by code_simp
  have l: "length (toLowerCase (lit ''The Ickabog'')) \<le> length (lit ''The Ickabog'')"
    by code_simp
  have i: "oprop (bookRecord (lit ''The Ickabog'') 2020) ''title'' = JStr (lit ''The Ickabog'')"
    by (simp add: bookRecord_def)
  from filterBooks_records_valid [of exampleBooks noNumber letterCompare] e m
  have "truthy (oprop (bookRecord (lit ''The Ickabog'') 2020) ''first_publish_year'') \<and>
        (\<exists>t. oprop (bookRecord (lit ''The Ickabog'') 2020) ''title'' = JStr t \<and>
           length (trim (toLowerCase t)) > 2 \<and>
           (length (toLowerCase t) \<le> length t \<longrightarrow> length t > 2) \<and>
           (\<forall>term\<in>set excludedTerms. \<not> includes_str (trim (toLowerCase t)) term))"
    by blast
  then have "truthy (oprop (bookRecord (lit ''The Ickabog'') 2020) ''first_publish_year'') \<and>
        (\<exists>t. oprop (bookRecord (lit ''The Ickabog'') 2020) ''title'' = JStr t \<and>
           length (trim (toLowerCase t)) > 2 \<and> length t > 2)"
    using l unfolding i by auto
  with e show ?thesis
    by (intro conjI) simp_all
qed

text \<open>
  The claim fails for the title itself: a record whose title is the capital I with a dot
  above followed by one letter has a title of two code units; the lower-cased title has
  three, so the record is not excluded and is in the output.
\<close>

theorem filterBooks_short_title:
  "filterBooks noNumber letterCompare (JArr [bookRecord dottedTitle 2000]) =
     Inr [bookRecord dottedTitle 2000] \<and>
   oprop (bookRecord dottedTitle 2000) ''title'' = JStr dottedTitle \<and>
   length dottedTitle = 2 \<and>
   length (trim (toLowerCase dottedTitle)) = 3"
  by code_simp






section \<open>Properties of the genre categorization\<close>

text \<open>
  Claim C8. \<open>categorizeGenre\<close> maps "Fantasy fiction" to "Fantasy" (the first key of
  the table contained in the subject) and "Juvenile fiction, grade 3" to \<open>null\<close> (the
  subject contains an excluded keyword).
\<close>

theorem categorizeGenre_examples:
  "categorizeGenre (JStr (lit ''Fantasy fiction'')) = Some (lit ''Fantasy'') \<and>
   categorizeGenre (JStr (lit ''Juvenile fiction, grade 3'')) = None"
  by code_simp

section \<open>Properties of the merge\<close>

lemma str_toLowerCase_Inr_truthy:
  "truthy v \<Longrightarrow> str_toLowerCase v = Inr l \<longleftrightarrow> (\<exists>s. v = JStr s \<and> s \<noteq> [] \<and> l = toLowerCase s)"
  by (cases v) auto

lemma truthy_workKey:
  "oprop w ''title'' = JStr s \<Longrightarrow> s \<noteq> [] \<Longrightarrow> workKey w = Some (toLowerCase s)"
  by (simp add: workKey_def)

lemma falsy_workKey: "\<not> truthy (oprop w ''title'') \<Longrightarrow> workKey w = None"
  by (cases "oprop w ''title''") (auto simp: workKey_def)

lemma falsy_searchKey: "\<not> truthy (oprop w ''title'') \<Longrightarrow> searchKey w = None"
  by (cases "oprop w ''title''") (auto simp: searchKey_def)

lemma workKey_Some: "workKey w = Some k \<longleftrightarrow> (\<exists>s. oprop w ''title'' = JStr s \<and> s \<noteq> [] \<and> k = toLowerCase s)"
  by (cases "oprop w ''title''") (auto simp: workKey_def)

lemma searchKey_Some: "searchKey w = Some k \<longleftrightarrow> (\<exists>s. oprop w ''title'' = JStr s \<and> s \<noteq> [] \<and> k = trim (toLowerCase s))"
  by (cases "oprop w ''title''") (auto simp: searchKey_def)

subsection \<open>The lookup of search hits\<close>

lemma buildSearchMap_Cons:
  "buildSearchMap (h # rest) m = Inr m' \<longleftrightarrow>
     \<not> nullish h \<and>
     (if truthy (oprop h ''title'')
      then \<exists>k. searchKey h = Some k \<and> buildSearchMap rest (m(k \<mapsto> h)) = Inr m'
      else buildSearchMap rest m = Inr m')"
  by (cases "oprop h ''title''")
     (auto simp: bindE_Inr getp_Inr searchKey_def)

lemma buildSearchMap_last:
  "buildSearchMap hits m = Inr m' \<Longrightarrow> hits = hpre @ h # hpost \<Longrightarrow> searchKey h = Some k \<Longrightarrow>
   \<forall>x\<in>set hpost. searchKey x \<noteq> Some k \<Longrightarrow> m' k = Some h"
proof (induction hpre arbitrary: hits m)
  case Nil
  have keep: "buildSearchMap hpost m0 = Inr m' \<Longrightarrow> \<forall>x\<in>set hpost. searchKey x \<noteq> Some k \<Longrightarrow> m' k = m0 k" for m0
  proof (induction hpost arbitrary: m0)
    case Nil
    then show ?case by simp
  next
    case (Cons x xs)
    from Cons.prems(1) show ?case
      unfolding buildSearchMap_Cons
      using Cons.IH Cons.prems(2) by (auto split: if_splits)
  qed
  from Nil have "buildSearchMap (h # hpost) m = Inr m'" by simp
  then have "buildSearchMap hpost (m(k \<mapsto> h)) = Inr m'"
    unfolding buildSearchMap_Cons using Nil.prems(3) by (auto simp: searchKey_Some split: if_splits)
  from keep[OF this Nil.prems(4)] show ?case by simp
next
  case (Cons x hpre)
  then have "buildSearchMap (x # (hpre @ h # hpost)) m = Inr m'" by simp
  then obtain m1 where "buildSearchMap (hpre @ h # hpost) m1 = Inr m'"
    unfolding buildSearchMap_Cons by (auto split: if_splits)
  from Cons.IH[OF this refl Cons.prems(3,4)] show ?case .
qed

subsection \<open>The loops over works and search hits\<close>

lemma processWorks_Cons:
  "processWorks net m (w # rest) (bs, seen) = Inr st \<longleftrightarrow>
     \<not> nullish w \<and>
     (case workKey w of
        None \<Rightarrow> \<not> truthy (oprop w ''title'') \<and> processWorks net m rest (bs, seen) = Inr st
      | Some k \<Rightarrow>
          if k \<in> seen then processWorks net m rest (bs, seen) = Inr st
          else processWorks net m rest
                 (bs @ [enhancedBook w (case m k of Some b \<Rightarrow> b | None \<Rightarrow> Undefined) (detailedWork net w)],
                  insert k seen) = Inr st)"
  by (cases "oprop w ''title''")
     (auto simp: bindE_Inr getp_Inr workKey_def Let_def)

lemma addSearchResults_Cons:
  "addSearchResults (h # rest) (bs, seen) = Inr st \<longleftrightarrow>
     \<not> nullish h \<and>
     (case workKey h of
        None \<Rightarrow> \<not> truthy (oprop h ''title'') \<and> addSearchResults rest (bs, seen) = Inr st
      | Some k \<Rightarrow>
          if k \<in> seen then addSearchResults rest (bs, seen) = Inr st
          else addSearchResults rest (bs @ [searchOnlyBook h], insert k seen) = Inr st)"
  by (cases "oprop h ''title''")
     (auto simp: bindE_Inr getp_Inr workKey_def Let_def)

lemma title_enhancedBook [simp]: "oprop (enhancedBook w sm d) ''title'' = oprop w ''title''"
  by (simp add: enhancedBook_def)

lemma workKey_JObj: "workKey h = Some k \<Longrightarrow> \<exists>ps. h = JObj ps"
  by (cases h) (auto simp: workKey_def)

lemma title_searchOnlyBook: "workKey h = Some k \<Longrightarrow> oprop (searchOnlyBook h) ''title'' = oprop h ''title''"
  by (auto dest!: workKey_JObj simp: searchOnlyBook_def update_conv')

lemma lowerTitle_workKey:
  "workKey w = Some k \<Longrightarrow> oprop r ''title'' = oprop w ''title'' \<Longrightarrow> lowerTitle r = k"
  by (auto simp: workKey_Some lowerTitle_def titleString_def)

lemma processWorks_inv:
  "processWorks net m ws (bs, seen) = Inr (bs', seen') \<Longrightarrow>
   lowerTitle ` set bs \<subseteq> seen \<Longrightarrow> distinct (map lowerTitle bs) \<Longrightarrow>
   lowerTitle ` set bs' \<subseteq> seen' \<and> distinct (map lowerTitle bs') \<and>
   (\<exists>new. bs' = bs @ new \<and>
      (\<forall>r\<in>set new. \<exists>w\<in>set ws. workKey w \<noteq> None \<and> oprop r ''title'' = oprop w ''title''))"
proof (induction ws arbitrary: bs seen)
  case Nil
  then show ?case by simp
next
  case (Cons w ws)
  note step = Cons.prems(1)[unfolded processWorks_Cons]
  show ?case
  proof (cases "workKey w")
    case None
    with step have r: "processWorks net m ws (bs, seen) = Inr (bs', seen')" by simp
    from Cons.IH[OF r Cons.prems(2,3)] show ?thesis by auto
  next
    case (Some k)
    show ?thesis
    proof (cases "k \<in> seen")
      case True
      with step Some have r: "processWorks net m ws (bs, seen) = Inr (bs', seen')" by simp
      from Cons.IH[OF r Cons.prems(2,3)] show ?thesis by auto
    next
      case False
      define e where "e = enhancedBook w (case m k of Some b \<Rightarrow> b | None \<Rightarrow> Undefined) (detailedWork net w)"
      from step Some False
      have r: "processWorks net m ws (bs @ [e], insert k seen) = Inr (bs', seen')"
        by (simp add: e_def)
      have lt: "lowerTitle e = k"
        using Some by (auto intro: lowerTitle_workKey simp: e_def)
      have i1: "lowerTitle ` set (bs @ [e]) \<subseteq> insert k seen"
        using Cons.prems(2) lt by auto
      have i2: "distinct (map lowerTitle (bs @ [e]))"
        using Cons.prems(2,3) lt False by auto
      from Cons.IH[OF r i1 i2] obtain new where
        a: "lowerTitle ` set bs' \<subseteq> seen'" "distinct (map lowerTitle bs')"
        and n: "bs' = (bs @ [e]) @ new"
          "\<forall>r\<in>set new. \<exists>w\<in>set ws. workKey w \<noteq> None \<and> oprop r ''title'' = oprop w ''title''"
        by blast
      have "bs' = bs @ (e # new)" using n by simp
      moreover have "\<forall>r\<in>set (e # new). \<exists>x\<in>set (w # ws). workKey x \<noteq> None \<and> oprop r ''title'' = oprop x ''title''"
        using n(2) Some by (auto simp: e_def)
      ultimately show ?thesis using a by blast
    qed
  qed
qed

lemma addSearchResults_inv:
  "addSearchResults hits (bs, seen) = Inr (bs', seen') \<Longrightarrow>
   lowerTitle ` set bs \<subseteq> seen \<Longrightarrow> distinct (map lowerTitle bs) \<Longrightarrow>
   lowerTitle ` set bs' \<subseteq> seen' \<and> distinct (map lowerTitle bs') \<and>
   (\<exists>new. bs' = bs @ new \<and>
      (\<forall>r\<in>set new. \<exists>h\<in>set hits. workKey h \<noteq> None \<and> workKey h \<notin> Some ` seen \<and> r = searchOnlyBook h))"
proof (induction hits arbitrary: bs seen)
  case Nil
  then show ?case by simp
next
  case (Cons h hits)
  note step = Cons.prems(1)[unfolded addSearchResults_Cons]
  show ?case
  proof (cases "workKey h")
    case None
    with step have r: "addSearchResults hits (bs, seen) = Inr (bs', seen')" by simp
    from Cons.IH[OF r Cons.prems(2,3)] show ?thesis by auto
  next
    case (Some k)
    show ?thesis
    proof (cases "k \<in> seen")
      case True
      with step Some have r: "addSearchResults hits (bs, seen) = Inr (bs', seen')" by simp
      from Cons.IH[OF r Cons.prems(2,3)] show ?thesis by auto
    next
      case False
      define e where "e = searchOnlyBook h"
      from step Some False
      have r: "addSearchResults hits (bs @ [e], insert k seen) = Inr (bs', seen')"
        by (simp add: e_def)
      have lt: "lowerTitle e = k"
        using Some title_searchOnlyBook[OF Some] by (auto intro: lowerTitle_workKey simp: e_def)
      have i1: "lowerTitle ` set (bs @ [e]) \<subseteq> insert k seen"
        using Cons.prems(2) lt by auto
      have i2: "distinct (map lowerTitle (bs @ [e]))"
        using Cons.prems(2,3) lt False by auto
      from Cons.IH[OF r i1 i2] obtain new where
        a: "lowerTitle ` set bs' \<subseteq> seen'" "distinct (map lowerTitle bs')"
        and n: "bs' = (bs @ [e]) @ new"
          "\<forall>r\<in>set new. \<exists>x\<in>set hits. workKey x \<noteq> None \<and> workKey x \<notin> Some ` insert k seen \<and> r = searchOnlyBook x"
        by blast
      have "bs' = bs @ (e # new)" using n by simp
      moreover have "\<forall>r\<in>set (e # new). \<exists>x\<in>set (h # hits). workKey x \<noteq> None \<and> workKey x \<notin> Some ` seen \<and> r = searchOnlyBook x"
        using n(2) Some False by (auto simp: e_def)
      ultimately show ?thesis using a by blast
    qed
  qed
qed

lemma processWorks_extends:
  "processWorks net m ws (bs, seen) = Inr (bs', seen') \<Longrightarrow> \<exists>new. bs' = bs @ new"
proof (induction ws arbitrary: bs seen)
  case Nil
  then show ?case by simp
next
  case (Cons w ws)
  from Cons.prems[unfolded processWorks_Cons] obtain bs1 seen1 where
    "processWorks net m ws (bs1, seen1) = Inr (bs', seen')" and "\<exists>new. bs1 = bs @ new"
    by (auto split: option.splits if_splits)
  with Cons.IH show ?case by fastforce
qed

lemma addSearchResults_extends:
  "addSearchResults hits (bs, seen) = Inr (bs', seen') \<Longrightarrow> \<exists>new. bs' = bs @ new"
proof (induction hits arbitrary: bs seen)
  case Nil
  then show ?case by simp
next
  case (Cons h hits)
  from Cons.prems[unfolded addSearchResults_Cons] obtain bs1 seen1 where
    "addSearchResults hits (bs1, seen1) = Inr (bs', seen')" and "\<exists>new. bs1 = bs @ new"
    by (auto split: option.splits if_splits)
  with Cons.IH show ?case by fastforce
qed

lemma processWorks_first:
  "processWorks net m ws (bs, seen) = Inr (bs', seen') \<Longrightarrow> ws = pre @ w # post \<Longrightarrow>
   workKey w = Some k \<Longrightarrow> k \<notin> seen \<Longrightarrow> \<forall>x\<in>set pre. workKey x \<noteq> Some k \<Longrightarrow>
   enhancedBook w (case m k of Some b \<Rightarrow> b | None \<Rightarrow> Undefined) (detailedWork net w) \<in> set bs'"
proof (induction pre arbitrary: ws bs seen)
  case Nil
  define e where "e = enhancedBook w (case m k of Some b \<Rightarrow> b | None \<Rightarrow> Undefined) (detailedWork net w)"
  from Nil have "processWorks net m (w # post) (bs, seen) = Inr (bs', seen')" by simp
  then have r: "processWorks net m post (bs @ [e], insert k seen) = Inr (bs', seen')"
    unfolding processWorks_Cons using Nil.prems(3,4) by (simp add: e_def)
  from processWorks_extends[OF r] show ?case
    by (auto simp: e_def)
next
  case (Cons x pre)
  have nk: "workKey x \<noteq> Some k" using Cons.prems(5) by simp
  from Cons.prems(1,2) have "processWorks net m (x # (pre @ w # post)) (bs, seen) = Inr (bs', seen')"
    by simp
  then obtain bs1 seen1 where r: "processWorks net m (pre @ w # post) (bs1, seen1) = Inr (bs', seen')"
    and k: "k \<notin> seen1"
    unfolding processWorks_Cons using nk Cons.prems(4)
    by (auto split: option.splits if_splits)
  from Cons.IH[OF r refl Cons.prems(3) k] Cons.prems(5) show ?case by simp
qed

lemma enhanceBookData_arrays:
  "enhanceBookData net (JArr works) (JArr hits) = Inr out \<longleftrightarrow>
     (\<exists>m bs seen seen'.
        buildSearchMap hits Map.empty = Inr m \<and>
        processWorks net m works ([], {}) = Inr (bs, seen) \<and>
        addSearchResults hits (bs, seen) = Inr (out, seen'))"
proof
  assume "enhanceBookData net (JArr works) (JArr hits) = Inr out"
  then obtain m st st' where "buildSearchMap hits Map.empty = Inr m"
    "processWorks net m works ([], {}) = Inr st" "addSearchResults hits st = Inr st'" "out = fst st'"
    unfolding enhanceBookData_def bindE_Inr by auto
  then show "\<exists>m bs seen seen'.
        buildSearchMap hits Map.empty = Inr m \<and>
        processWorks net m works ([], {}) = Inr (bs, seen) \<and>
        addSearchResults hits (bs, seen) = Inr (out, seen')"
    by (cases st; cases st') auto
next
  assume "\<exists>m bs seen seen'.
        buildSearchMap hits Map.empty = Inr m \<and>
        processWorks net m works ([], {}) = Inr (bs, seen) \<and>
        addSearchResults hits (bs, seen) = Inr (out, seen')"
  then show "enhanceBookData net (JArr works) (JArr hits) = Inr out"
    unfolding enhanceBookData_def bindE_Inr by fastforce
qed

text \<open>
  What the three loops keep distinct is the lower-cased title: the result consists of the
  records built from works, followed by the records of search hits, no two of them with
  the same lower-cased title, and a search hit is appended only when its lower-cased
  title is not the one of a record built from a work.
\<close>

lemma enhanceBookData_unique_lowercase:
  assumes "enhanceBookData net (JArr works) (JArr hits) = Inr out"
  shows "distinct (map lowerTitle out) \<and>
         (\<exists>fromWorks fromHits. out = fromWorks @ fromHits \<and>
            (\<forall>r\<in>set fromWorks. \<exists>w\<in>set works.
                workKey w \<noteq> None \<and> oprop r ''title'' = oprop w ''title'') \<and>
            (\<forall>r\<in>set fromHits. \<exists>h\<in>set hits.
                workKey h \<noteq> None \<and> workKey h \<notin> Some ` lowerTitle ` set fromWorks \<and>
                r = searchOnlyBook h))"
proof -
  from assms obtain m fromWorks seen seen' where
    p: "processWorks net m works ([], {}) = Inr (fromWorks, seen)"
    and a: "addSearchResults hits (fromWorks, seen) = Inr (out, seen')"
    unfolding enhanceBookData_arrays by (elim exE conjE)
  from processWorks_inv[OF p] have
    w1: "lowerTitle ` set fromWorks \<subseteq> seen" and w2: "distinct (map lowerTitle fromWorks)"
    and w3: "\<forall>r\<in>set fromWorks. \<exists>w\<in>set works.
                workKey w \<noteq> None \<and> oprop r ''title'' = oprop w ''title''"
    by simp_all
  from addSearchResults_inv[OF a w1 w2] obtain new where
    d: "distinct (map lowerTitle out)" and n: "out = fromWorks @ new"
    and h: "\<forall>r\<in>set new. \<exists>h\<in>set hits. workKey h \<noteq> None \<and> workKey h \<notin> Some ` seen \<and> r = searchOnlyBook h"
    by blast
  have s: "workKey x \<notin> Some ` lowerTitle ` set fromWorks" if "workKey x \<notin> Some ` seen" for x
    using that w1 by auto
  have h': "\<forall>r\<in>set new. \<exists>h\<in>set hits. workKey h \<noteq> None \<and>
              workKey h \<notin> Some ` lowerTitle ` set fromWorks \<and> r = searchOnlyBook h"
  proof
    fix r
    assume "r \<in> set new"
    with h obtain x where x: "x \<in> set hits" "workKey x \<noteq> None" "workKey x \<notin> Some ` seen"
      "r = searchOnlyBook x"
      by blast
    from s[OF x(3)] x(1,2,4)
    show "\<exists>h\<in>set hits. workKey h \<noteq> None \<and>
            workKey h \<notin> Some ` lowerTitle ` set fromWorks \<and> r = searchOnlyBook h"
      by (intro bexI[of _ x]) simp_all
  qed
  let ?P = "\<lambda>fromWorks fromHits. out = fromWorks @ fromHits \<and>
            (\<forall>r\<in>set fromWorks. \<exists>w\<in>set works.
                workKey w \<noteq> None \<and> oprop r ''title'' = oprop w ''title'') \<and>
            (\<forall>r\<in>set fromHits. \<exists>h\<in>set hits.
                workKey h \<noteq> None \<and> workKey h \<notin> Some ` lowerTitle ` set fromWorks \<and>
                r = searchOnlyBook h)"
  have "?P fromWorks new"
    using n w3 h' by (intro conjI)
  then have "\<exists>fromWorks fromHits. ?P fromWorks fromHits"
    by (intro exI)
  with d show ?thesis
    by (intro conjI)
qed

text \<open>
  Claim C3. The merge stores a search hit under its lower-cased and trimmed title, but
  records and tests the titles already processed, and looks the hit of a work up, by the
  lower-cased title alone. For a work titled "Casual Vacancy" and a search hit titled
  "Casual Vacancy " (with a trailing space) the hit is found as the match of the work and
  is then appended as a record of its own: the result has two records with the same
  normalized title.
\<close>

theorem enhanceBookData_trimmed_duplicate:
  "enhanceBookData noDetail (JArr [exampleWork]) (JArr [spacedHit]) =
     Inr [enhancedBook exampleWork spacedHit Null, searchOnlyBook spacedHit] \<and>
   searchKey spacedHit = workKey exampleWork \<and>
   workKey spacedHit \<noteq> workKey exampleWork \<and>
   normTitle (enhancedBook exampleWork spacedHit Null) = normTitle (searchOnlyBook spacedHit) \<and>
   \<not> distinct (map normTitle [enhancedBook exampleWork spacedHit Null, searchOnlyBook spacedHit])"
  by code_simp

text \<open>
  Claim C1, as the code has it. For a work whose title is first met at this work and
  whose lower-cased title is the key of a search hit (the last hit with that key), the
  record of the result takes: the title and key of the work; \<open>cover_i\<close> from the search
  hit, else the first cover of the work; \<open>first_publish_year\<close> from the search hit, else
  the \<open>first_publish_date\<close> of the work; \<open>first_publish_date\<close> from the work, else from
  the search hit; \<open>language\<close>, \<open>publisher\<close> and \<open>isbn\<close> from the search hit, else
  empty; \<open>subject\<close> from the search hit, else the subjects of the work detail, else
  empty; \<open>description\<close> from the work detail, else from the work; \<open>subtitle\<close> from
  the work detail, else from the work.
\<close>

theorem enhanceBookData_field_sources:
  assumes "enhanceBookData net (JArr works) (JArr hits) = Inr out"
      and "works = pre @ work # post"
      and "workKey work = Some k"
      and "\<forall>w\<in>set pre. workKey w \<noteq> Some k"
      and "hits = hpre @ searchMatch # hpost"
      and "searchKey searchMatch = Some k"
      and "\<forall>h\<in>set hpost. searchKey h \<noteq> Some k"
      and "detailed = detailedWork net work"
  shows "\<exists>r\<in>set out.
           oprop r ''title'' = oprop work ''title'' \<and>
           oprop r ''key'' = oprop work ''key'' \<and>
           oprop r ''cover_i'' =
             js_or (oprop searchMatch ''cover_i'')
                   (js_and (oprop work ''covers'') (index0 (oprop work ''covers''))) \<and>
           oprop r ''first_publish_year'' =
             js_or (oprop searchMatch ''first_publish_year'') (oprop work ''first_publish_date'') \<and>
           oprop r ''first_publish_date'' =
             js_or (oprop work ''first_publish_date'') (oprop searchMatch ''first_publish_date'') \<and>
           oprop r ''language'' = js_or (oprop searchMatch ''language'') (JArr []) \<and>
           oprop r ''publisher'' = js_or (oprop searchMatch ''publisher'') (JArr []) \<and>
           oprop r ''isbn'' = js_or (oprop searchMatch ''isbn'') (JArr []) \<and>
           oprop r ''subject'' =
             js_or (js_or (oprop searchMatch ''subject'') (oprop detailed ''subjects'')) (JArr []) \<and>
           oprop r ''description'' =
             js_or (js_or (oprop (oprop detailed ''description'') ''value'')
                          (oprop detailed ''description''))
                   (oprop work ''description'') \<and>
           oprop r ''subtitle'' = js_or (oprop detailed ''subtitle'') (oprop work ''subtitle'')"
proof -
  from assms(1) obtain m bs seen seen' where
    b: "buildSearchMap hits Map.empty = Inr m"
    and p: "processWorks net m works ([], {}) = Inr (bs, seen)"
    and a: "addSearchResults hits (bs, seen) = Inr (out, seen')"
    unfolding enhanceBookData_arrays by (elim exE conjE)
  have m: "m k = Some searchMatch"
    using buildSearchMap_last[OF b assms(5,6,7)] .
  have "k \<notin> {}" by simp
  from processWorks_first[OF p assms(2,3) this assms(4)]
  have "enhancedBook work searchMatch detailed \<in> set bs"
    by (simp add: m assms(8))
  moreover from addSearchResults_extends[OF a] have "set bs \<subseteq> set out"
    by auto
  ultimately have "enhancedBook work searchMatch detailed \<in> set out"
    by (rule set_mp[rotated])
  then show ?thesis
    by (rule bexI[rotated]) (simp add: enhancedBook_def)
qed

theorem enhanceBookData_field_sources_witness:
  "enhanceBookData exampleNet (JArr [exampleWork]) (JArr [exampleHit]) =
     Inr [enhancedBook exampleWork exampleHit exampleDetail] \<and>
   workKey exampleWork = Some (lit ''casual vacancy'') \<and>
   searchKey exampleHit = Some (lit ''casual vacancy'') \<and>
   (\<exists>r\<in>set [enhancedBook exampleWork exampleHit exampleDetail].
      oprop r ''first_publish_year'' = JNum 2012 \<and>
      oprop r ''first_publish_date'' = JStr (lit ''2012'') \<and>
      oprop r ''language'' = JArr [JStr (lit ''eng'')] \<and>
      oprop r ''subject'' = JArr [JStr (lit ''Fiction'')] \<and>
      oprop r ''description'' = JStr (lit ''From the work'') \<and>
      oprop r ''subtitle'' = JStr (lit ''A Novel''))"
proof -
  have e: "enhanceBookData exampleNet (JArr [exampleWork]) (JArr [exampleHit]) =
     Inr [enhancedBook exampleWork exampleHit exampleDetail]"
    by code_simp
  have w: "workKey exampleWork = Some (lit ''casual vacancy'')"
    by code_simp
  have s: "searchKey exampleHit = Some (lit ''casual vacancy'')"
    by code_simp
  have d: "exampleDetail = detailedWork exampleNet exampleWork"
    by code_simp
  have v: "js_or (oprop exampleHit ''first_publish_year'') (oprop exampleWork ''first_publish_date'') = JNum 2012"
    "js_or (oprop exampleWork ''first_publish_date'') (oprop exampleHit ''first_publish_date'') = JStr (lit ''2012'')"
    "js_or (oprop exampleHit ''language'') (JArr []) = JArr [JStr (lit ''eng'')]"
    "js_or (js_or (oprop exampleHit ''subject'') (oprop exampleDetail ''subjects'')) (JArr []) = JArr [JStr (lit ''Fiction'')]"
    "js_or (js_or (oprop (oprop exampleDetail ''description'') ''value'') (oprop exampleDetail ''description''))
           (oprop exampleWork ''description'') = JStr (lit ''From the work'')"
    "js_or (oprop exampleDetail ''subtitle'') (oprop exampleWork ''subtitle'') = JStr (lit ''A Novel'')"
    by code_simp+
  from enhanceBookData_field_sources [OF e _ w _ _ s _ d, of "[]" "[]" "[]" "[]"]
  have "\<exists>r\<in>set [enhancedBook exampleWork exampleHit exampleDetail].
      oprop r ''first_publish_year'' = JNum 2012 \<and>
      oprop r ''first_publish_date'' = JStr (lit ''2012'') \<and>
      oprop r ''language'' = JArr [JStr (lit ''eng'')] \<and>
      oprop r ''subject'' = JArr [JStr (lit ''Fiction'')] \<and>
      oprop r ''description'' = JStr (lit ''From the work'') \<and>
      oprop r ''subtitle'' = JStr (lit ''A Novel'')"
    unfolding v by simp
  with e w s show ?thesis
    by (intro conjI)
qed

text \<open>
  The precedence search hit, work detail, work does not hold for every field: the
  \<open>first_publish_date\<close> of the work wins over the one of the search hit, and the
  \<open>description\<close> of the search hit is not consulted.
\<close>

theorem enhanceBookData_precedence_counterexample:
  "enhanceBookData exampleNet (JArr [exampleWork]) (JArr [exampleHit]) =
     Inr [enhancedBook exampleWork exampleHit exampleDetail] \<and>
   oprop (enhancedBook exampleWork exampleHit exampleDetail) ''first_publish_date'' = JStr (lit ''2012'') \<and>
   specPrecedence exampleHit exampleDetail exampleWork ''first_publish_date'' = JStr (lit ''September 2012'') \<and>
   oprop (enhancedBook exampleWork exampleHit exampleDetail) ''description'' = JStr (lit ''From the work'') \<and>
   specPrecedence exampleHit exampleDetail exampleWork ''description'' = JStr (lit ''From the search hit'') \<and>
   oprop (enhancedBook exampleWork exampleHit exampleDetail) ''first_publish_date'' \<noteq>
     specPrecedence exampleHit exampleDetail exampleWork ''first_publish_date'' \<and>
   oprop (enhancedBook exampleWork exampleHit exampleDetail) ''description'' \<noteq>
     specPrecedence exampleHit exampleDetail exampleWork ''description''"
  by code_simp

section \<open>Properties of the description resolver\<close>

lemma goodreadsLookup_string:
  "goodreadsLookup dataset book = Inr v \<Longrightarrow> v = Null \<or> (\<exists>s. v = JStr s)"
  unfolding goodreadsLookup_def
  by (auto simp: bindE_Inr Let_def split: fetch_result.splits if_splits)

lemma fetchFromGoodreadsDataset_cases:
  "fetchFromGoodreadsDataset dataset book = Inr Null \<or>
   (\<exists>s. fetchFromGoodreadsDataset dataset book = Inr (JStr s))"
  using goodreadsLookup_string[of dataset book]
  by (cases "goodreadsLookup dataset book") (auto simp: fetchFromGoodreadsDataset_def)

lemma arr_join_listed:
  "listedSubjects book \<Longrightarrow> \<exists>j. arr_join (js_or (oprop book ''subject'') (JArr [])) sep = Inr j"
  by (cases "oprop book ''subject''") (auto simp: listedSubjects_def js_or_def)

lemma getFallbackDescription_total:
  assumes "oprop book ''title'' = JStr t" and "listedSubjects book"
  shows "\<exists>s. getFallbackDescription book = Inr s"
proof -
  have n: "\<not> nullish book"
    using assms(1) by (cases book) auto
  from arr_join_listed[OF assms(2)] obtain j where
    j: "arr_join (js_or (oprop book ''subject'') (JArr [])) (lit '' '') = Inr j" by blast
  show ?thesis
    unfolding getFallbackDescription_def bindE_def getp_def
    by (simp only: n if_False assms(1) str_toLowerCase.simps j sum.case Let_def) blast
qed

text \<open>
  Claim C2. For every book record, \<open>generateBookDescription\<close> does not throw and returns
  a string; when the lookup in the dataset fails or yields nothing, the string is the
  result of \<open>getFallbackDescription\<close>.
\<close>

theorem generateBookDescription_returns_string:
  assumes "isBookRecord book"
  shows "(\<exists>s. generateBookDescription dataset book = Inr (JStr s)) \<and>
         ((\<exists>e. goodreadsLookup dataset book = Inl e) \<or>
          (\<exists>v. goodreadsLookup dataset book = Inr v \<and> \<not> truthy v) \<longrightarrow>
          (\<exists>s. getFallbackDescription book = Inr s \<and>
               generateBookDescription dataset book = Inr (JStr s)))"
proof -
  from assms obtain t where t: "oprop book ''title'' = JStr t" and l: "listedSubjects book"
    by (auto simp: isBookRecord_def split: jsval.splits)
  from getFallbackDescription_total[OF t l] obtain s where
    s: "getFallbackDescription book = Inr s" ..
  have fall: "generateBookDescription dataset book = Inr (JStr s)"
    if "fetchFromGoodreadsDataset dataset book = Inr v" "\<not> truthy v" for v
    using that s by (simp add: generateBookDescription_def bindE_def)
  have a: "\<exists>s. generateBookDescription dataset book = Inr (JStr s)"
  proof -
    from fetchFromGoodreadsDataset_cases[of dataset book]
    consider "fetchFromGoodreadsDataset dataset book = Inr Null"
      | s' where "fetchFromGoodreadsDataset dataset book = Inr (JStr s')"
      by blast
    then show ?thesis
    proof cases
      case 1
      then show ?thesis using fall[of Null] by simp
    next
      case 2
      then show ?thesis
        using s by (cases "s' = []") (auto simp: generateBookDescription_def bindE_def)
    qed
  qed
  have b: "\<exists>s. getFallbackDescription book = Inr s \<and>
               generateBookDescription dataset book = Inr (JStr s)"
    if "(\<exists>e. goodreadsLookup dataset book = Inl e) \<or>
        (\<exists>v. goodreadsLookup dataset book = Inr v \<and> \<not> truthy v)"
  proof -
    from that obtain v where "fetchFromGoodreadsDataset dataset book = Inr v" "\<not> truthy v"
      by (auto simp: fetchFromGoodreadsDataset_def)
    from fall[OF this] s show ?thesis by simp
  qed
  from a b show ?thesis by blast
qed

theorem generateBookDescription_returns_string_witness:
  "isBookRecord chamberBook \<and>
   goodreadsLookup (Rejected AbortError) chamberBook = Inl AbortError \<and>
   (\<exists>s. getFallbackDescription chamberBook = Inr s \<and>
        generateBookDescription (Rejected AbortError) chamberBook = Inr (JStr s)) \<and>
   (\<exists>s. generateBookDescription exampleDataset chamberBook = Inr (JStr s))"
proof -
  have r: "isBookRecord chamberBook"
    by code_simp
  have g: "goodreadsLookup (Rejected AbortError) chamberBook = Inl AbortError"
    by code_simp
  from generateBookDescription_returns_string [OF r, of "Rejected AbortError"] g
  have f: "\<exists>s. getFallbackDescription chamberBook = Inr s \<and>
        generateBookDescription (Rejected AbortError) chamberBook = Inr (JStr s)"
    by blast
  from generateBookDescription_returns_string [OF r, of exampleDataset]
  have d: "\<exists>s. generateBookDescription exampleDataset chamberBook = Inr (JStr s)"
    by blast
  from r g f d show ?thesis
    by (intro conjI)
qed

section \<open>Properties of the catalog request\<close>

lemma searchFallback_docs:
  "oprop (resp_json fr) ''docs'' = JArr hits \<Longrightarrow>
   searchFallback (Inr fr) = Inr \<lparr>result_books = JArr hits, result_total = JNum (int (length hits))\<rparr>"
  by (cases "resp_json fr") (auto simp: searchFallback_def bindE_def getp_def js_or_def Let_def)

lemma searchFallback_Inl:
  "searchFallback fallbackR = Inl e \<longleftrightarrow>
     fallbackR = Inl e \<or> (\<exists>fr. fallbackR = Inr fr \<and> nullish (resp_json fr) \<and> e = TypeError)"
  by (cases fallbackR) (auto simp: searchFallback_def bindE_def getp_def Let_def)

text \<open>
  Claim C9. If both requests succeed and the merge throws, the result is the raw search
  hits with their count as total (no hits and \<open>0\<close> when \<open>docs\<close> is absent). If the
  combined request fails (a request rejects, or a response is not \<open>ok\<close>), the result is
  the one of the search request alone: its \<open>docs\<close> with their count, or its error. An
  error reaches the caller only when the combined request has failed and the search
  request alone fails too.
\<close>

theorem fetchDetailedJKRowlingBooks_cascade:
  "(worksR = Inr wr \<and> searchR = Inr sr \<and> truthy (resp_ok wr) \<and> truthy (resp_ok sr) \<and>
      enhanceStep net (resp_json wr) (resp_json sr) = Inl e \<and>
      oprop (resp_json sr) ''docs'' = JArr hits \<longrightarrow>
    fetchDetailedJKRowlingBooks net worksR searchR fallbackR =
      Inr \<lparr>result_books = JArr hits, result_total = JNum (int (length hits))\<rparr>) \<and>
   (worksR = Inr wr \<and> searchR = Inr sr \<and> truthy (resp_ok wr) \<and> truthy (resp_ok sr) \<and>
      enhanceStep net (resp_json wr) (resp_json sr) = Inl e \<and>
      \<not> nullish (resp_json sr) \<and> \<not> truthy (oprop (resp_json sr) ''docs'') \<longrightarrow>
    fetchDetailedJKRowlingBooks net worksR searchR fallbackR =
      Inr \<lparr>result_books = JArr [], result_total = JNum 0\<rparr>) \<and>
   ((worksR = Inl ew \<or> searchR = Inl es \<or>
       (worksR = Inr wr \<and> searchR = Inr sr \<and> (\<not> truthy (resp_ok wr) \<or> \<not> truthy (resp_ok sr)))) \<longrightarrow>
    fetchDetailedJKRowlingBooks net worksR searchR fallbackR = searchFallback fallbackR \<and>
    (fallbackR = Inr fr \<and> oprop (resp_json fr) ''docs'' = JArr docs \<longrightarrow>
       fetchDetailedJKRowlingBooks net worksR searchR fallbackR =
         Inr \<lparr>result_books = JArr docs, result_total = JNum (int (length docs))\<rparr>) \<and>
    (fallbackR = Inl ef \<longrightarrow>
       fetchDetailedJKRowlingBooks net worksR searchR fallbackR = Inl ef)) \<and>
   (fetchDetailedJKRowlingBooks net worksR searchR fallbackR = Inl ep \<longrightarrow>
      (\<exists>e'. combinedFetch net worksR searchR = Inl e') \<and>
      (fallbackR = Inl ep \<or>
       (\<exists>fr'. fallbackR = Inr fr' \<and> nullish (resp_json fr') \<and> ep = TypeError)))"
proof (intro conjI impI)
  assume a: "worksR = Inr wr \<and> searchR = Inr sr \<and> truthy (resp_ok wr) \<and> truthy (resp_ok sr) \<and>
      enhanceStep net (resp_json wr) (resp_json sr) = Inl e \<and>
      oprop (resp_json sr) ''docs'' = JArr hits"
  then have "\<not> nullish (resp_json sr)"
    by (cases "resp_json sr") auto
  with a have "combinedFetch net worksR searchR =
      Inr \<lparr>result_books = JArr hits, result_total = JNum (int (length hits))\<rparr>"
    by (simp add: combinedFetch_def bindE_def getp_def js_or_def Let_def)
  then show "fetchDetailedJKRowlingBooks net worksR searchR fallbackR =
      Inr \<lparr>result_books = JArr hits, result_total = JNum (int (length hits))\<rparr>"
    by (simp add: fetchDetailedJKRowlingBooks_def)
next
  assume a: "worksR = Inr wr \<and> searchR = Inr sr \<and> truthy (resp_ok wr) \<and> truthy (resp_ok sr) \<and>
      enhanceStep net (resp_json wr) (resp_json sr) = Inl e \<and>
      \<not> nullish (resp_json sr) \<and> \<not> truthy (oprop (resp_json sr) ''docs'')"
  then have "combinedFetch net worksR searchR =
      Inr \<lparr>result_books = JArr [], result_total = JNum 0\<rparr>"
    by (simp add: combinedFetch_def bindE_def getp_def js_or_def Let_def)
  then show "fetchDetailedJKRowlingBooks net worksR searchR fallbackR =
      Inr \<lparr>result_books = JArr [], result_total = JNum 0\<rparr>"
    by (simp add: fetchDetailedJKRowlingBooks_def)
next
  assume f: "worksR = Inl ew \<or> searchR = Inl es \<or>
       (worksR = Inr wr \<and> searchR = Inr sr \<and> (\<not> truthy (resp_ok wr) \<or> \<not> truthy (resp_ok sr)))"
  then have "\<exists>e'. combinedFetch net worksR searchR = Inl e'"
    by (cases worksR; cases searchR) (auto simp: combinedFetch_def bindE_def)
  then show r: "fetchDetailedJKRowlingBooks net worksR searchR fallbackR = searchFallback fallbackR"
    by (auto simp: fetchDetailedJKRowlingBooks_def)
  show "fetchDetailedJKRowlingBooks net worksR searchR fallbackR =
         Inr \<lparr>result_books = JArr docs, result_total = JNum (int (length docs))\<rparr>"
    if "fallbackR = Inr fr \<and> oprop (resp_json fr) ''docs'' = JArr docs"
    using that r searchFallback_docs by simp
  show "fetchDetailedJKRowlingBooks net worksR searchR fallbackR = Inl ef" if "fallbackR = Inl ef"
    using that r by (simp add: searchFallback_def bindE_def)
next
  assume p: "fetchDetailedJKRowlingBooks net worksR searchR fallbackR = Inl ep"
  then show "\<exists>e'. combinedFetch net worksR searchR = Inl e'"
    by (cases "combinedFetch net worksR searchR") (auto simp: fetchDetailedJKRowlingBooks_def)
  from p have "searchFallback fallbackR = Inl ep"
    by (cases "combinedFetch net worksR searchR") (auto simp: fetchDetailedJKRowlingBooks_def)
  then show "fallbackR = Inl ep \<or>
       (\<exists>fr'. fallbackR = Inr fr' \<and> nullish (resp_json fr') \<and> ep = TypeError)"
    by (simp add: searchFallback_Inl)
qed

theorem fetchDetailedJKRowlingBooks_cascade_witness:
  "fetchDetailedJKRowlingBooks noDetail (Inr nullWorks) (Inr searchDocs) (Inl SyntaxError) =
     Inr \<lparr>result_books = JArr [exampleHit], result_total = JNum 1\<rparr> \<and>
   fetchDetailedJKRowlingBooks noDetail (Inr copiedDocs) (Inr copiedDocs) (Inr copiedDocs) =
     Inr \<lparr>result_books = JArr [exampleHit], result_total = JNum 1\<rparr> \<and>
   fetchDetailedJKRowlingBooks noDetail (Inl AbortError) (Inr searchDocs) (Inl SyntaxError) =
     Inl SyntaxError"
proof -
  have s: "enhanceStep noDetail (resp_json nullWorks) (resp_json searchDocs) = Inl TypeError"
    by code_simp
  have o: "truthy (resp_ok nullWorks)" "truthy (resp_ok searchDocs)" "\<not> truthy (resp_ok copiedDocs)"
    by code_simp+
  have d: "oprop (resp_json searchDocs) ''docs'' = JArr [exampleHit]"
    "oprop (resp_json copiedDocs) ''docs'' = JArr [exampleHit]"
    by code_simp+
  note c = fetchDetailedJKRowlingBooks_cascade
  have 1: "fetchDetailedJKRowlingBooks noDetail (Inr nullWorks) (Inr searchDocs) (Inl SyntaxError) =
     Inr \<lparr>result_books = JArr [exampleHit], result_total = JNum 1\<rparr>"
    using c [where worksR = "Inr nullWorks" and wr = nullWorks and searchR = "Inr searchDocs"
               and sr = searchDocs and net = noDetail and e = TypeError and hits = "[exampleHit]"
               and fallbackR = "Inl SyntaxError", THEN conjunct1] s o d
    by simp
  have "fetchDetailedJKRowlingBooks noDetail (Inr copiedDocs) (Inr copiedDocs) (Inr copiedDocs) =
     Inr \<lparr>result_books = JArr [exampleHit], result_total = JNum (int (length [exampleHit]))\<rparr>"
    using c [where worksR = "Inr copiedDocs" and wr = copiedDocs and searchR = "Inr copiedDocs"
               and sr = copiedDocs and net = noDetail and fallbackR = "Inr copiedDocs"
               and fr = copiedDocs and docs = "[exampleHit]",
             THEN conjunct2, THEN conjunct2, THEN conjunct1] o d
    by blast
  then have 2: "fetchDetailedJKRowlingBooks noDetail (Inr copiedDocs) (Inr copiedDocs) (Inr copiedDocs) =
     Inr \<lparr>result_books = JArr [exampleHit], result_total = JNum 1\<rparr>"
    by simp
  have 3: "fetchDetailedJKRowlingBooks noDetail (Inl AbortError) (Inr searchDocs) (Inl SyntaxError) =
     Inl SyntaxError"
    using c [where worksR = "Inl AbortError" and ew = AbortError and searchR = "Inr searchDocs"
               and net = noDetail and fallbackR = "Inl SyntaxError" and ef = SyntaxError,
             THEN conjunct2, THEN conjunct2, THEN conjunct1]
    by blast
  from 1 2 3 show ?thesis
    by (intro conjI)
qed

end
